theory Spec2Isabelle
  imports Complex_Main
begin

section \<open>Deblenders of \<open>btk/deblend.py\<close>\<close>

text \<open>
  A shallow embedding of \<open>btk/deblend.py\<close>: the deblender classes
  (\<open>PeakLocalMax\<close>, \<open>SepSingleBand\<close>, \<open>SepMultiBand\<close>, \<open>DeepDisc\<close>, \<open>Scarlet\<close>),
  the batch aggregation \<open>Deblender.batch_call\<close> and the naming of deblenders in
  \<open>DeblendGenerator\<close>. Calls into external libraries (\<open>sep\<close>, \<open>skimage\<close>, \<open>astropy\<close>,
  \<open>scarlet\<close>, the DeepDISC predictor) are parameters of the definitions.
\<close>

subsection \<open>Exceptions\<close>

text \<open>
  Every \<open>raise\<close> of the source, and every exception a library call can raise, is a value.
  \<open>ValueError_TooManySources\<close> stands for the three \<open>ValueError\<close>s "... predicted more
  sources than `max_n_sources`" that the deblenders raise themselves; \<open>ValueError_Catalog\<close>
  for the \<open>ValueError\<close> of the constructor of \<open>DeblendExample\<close> on a catalog with too
  many rows; \<open>ValueError_Shape\<close> for the \<open>ValueError\<close> numpy raises when shapes do not
  fit (broadcasting, stacking, unpacking of \<open>.shape\<close>).
\<close>

datatype error =
    ValueError_TooManySources
  | ValueError_Catalog
  | ValueError_Config
  | ValueError_Shape
  | IndexError
  | AssertionError
  | LinAlgError
  | ExternalError

subsection \<open>Arrays, tables and the batch classes\<close>

text \<open>
  A numpy array with at least one axis is kept by its leading axis: \<open>entries\<close> are the
  sub-arrays \<open>a[0], a[1], ...\<close>, each flattened in row-major order, and \<open>dims\<close> is the shape
  of one of them, so that \<open>a.shape\<close> is \<open>length (entries a) # dims a\<close>. Slicing and
  assignment along the leading axis are then operations on the list of entries.
\<close>

record 'a ndarray =
  dims :: "nat list"
  entries :: "'a list list"

definition shape :: "'a ndarray \<Rightarrow> nat list" where
  "shape a = length (entries a) # dims a"

text \<open>\<open>np.zeros((n, *ds))\<close>, and the same for a boolean dtype.\<close>

definition np_full :: "nat \<Rightarrow> nat list \<Rightarrow> 'a \<Rightarrow> 'a ndarray" where
  "np_full n ds v = \<lparr>dims = ds, entries = replicate n (replicate (prod_list ds) v)\<rparr>"

definition np_zeros :: "nat \<Rightarrow> nat list \<Rightarrow> real ndarray" where
  "np_zeros n ds = np_full n ds 0"

definition np_zeros_bool :: "nat \<Rightarrow> nat list \<Rightarrow> bool ndarray" where
  "np_zeros_bool n ds = np_full n ds False"

text \<open>The whole array flattened: what it contributes as one entry of a larger stack.\<close>

definition flatten :: "'a ndarray \<Rightarrow> 'a list" where
  "flatten a = concat (entries a)"

text \<open>A two-dimensional image \<open>(height, width)\<close> with its pixels in row-major order.\<close>

record 'a image2d =
  height :: nat
  width :: nat
  pixels :: "'a list"

text \<open>
  One example of \<open>blend_batch.blend_images\<close>: an array \<open>(n_bands, height, width)\<close>,
  \<open>bands\<close> holding the pixels of each band.
\<close>

record cube =
  cube_height :: nat
  cube_width :: nat
  bands :: "real list list"

text \<open>
  An astropy \<open>Table\<close>: its columns in insertion order. \<open>len(table)\<close> is the number of
  rows, that is the length of the columns (0 for a table without columns).
\<close>

type_synonym table = "(string \<times> real list) list"

definition colnames :: "table \<Rightarrow> string list" where
  "colnames t = map fst t"

definition len_table :: "table \<Rightarrow> nat" where
  "len_table t = (case t of [] \<Rightarrow> 0 | (_, col) # _ \<Rightarrow> length col)"

text \<open>
  \<open>BlendBatch\<close>, as far as this file reads it. \<open>wcs\<close> is
  \<open>wcs.pixel_to_world_values\<close> on one pixel position \<open>(x, y)\<close>, giving \<open>(ra, dec)\<close> in
  degrees; on arrays it acts elementwise.
\<close>

record BlendBatch =
  batch_size :: nat
  image_size :: nat
  blend_images :: "cube list"
  catalog_list :: "table list"
  wcs :: "real \<times> real \<Rightarrow> real \<times> real"

text \<open>
  What a fitted scarlet source gives to this file: \<open>component.center\<close> as \<open>(y, x)\<close> and
  the model rendered into the observation frame, an array \<open>(n_bands, size, size)\<close>,
  flattened.
\<close>

record scarlet_source =
  center :: "real \<times> real"
  rendered :: "real list"

text \<open>The values stored in \<open>extra_data\<close> dictionaries.\<close>

datatype payload =
    BoolArray "bool ndarray"
  | RealArray "real ndarray"
  | ScarletSources "scarlet_source list"

type_synonym extra_dict = "(string \<times> payload) list"

text \<open>
  Modelled from the spec: the class \<open>DeblendExample\<close>, which \<open>deblend.py\<close> imports from
  \<open>btk/blend_batch.py\<close> and only constructs. The spec's data model (DetectionResult)
  gives it "a catalog (ordered table of detections, ... row count \<le> \<open>max_n_sources\<close>)",
  an optional segmentation stack, an optional deblended image stack and an optional extra
  payload, "created once per (strategy, example) call; immutable after creation".
\<close>

record DeblendExample =
  ex_max_n_sources :: nat
  catalog :: table
  ex_n_bands :: "nat option"
  ex_image_size :: "nat option"
  segmentation :: "bool ndarray option"
  deblended_images :: "real ndarray option"
  extra_data :: "extra_dict option"

text \<open>
  Modelled from the spec: the constructor
  \<open>DeblendExample(max_n_sources, catalog, n_bands=None, image_size=None,
  segmentation=None, deblended_images=None, extra_data=None)\<close>. It keeps the row bound of
  the data model: a catalog with more than \<open>max_n_sources\<close> rows is refused with a
  \<open>ValueError\<close>, so that no example with such a catalog exists.
\<close>

definition new_DeblendExample ::
  "nat \<Rightarrow> table \<Rightarrow> nat option \<Rightarrow> nat option \<Rightarrow> bool ndarray option \<Rightarrow> real ndarray option \<Rightarrow>
   extra_dict option \<Rightarrow> error + DeblendExample" where
  "new_DeblendExample max_n cat n_bands img_size segm deblended extra =
     (if len_table cat \<le> max_n
      then Inr \<lparr>ex_max_n_sources = max_n, catalog = cat, ex_n_bands = n_bands,
                ex_image_size = img_size, segmentation = segm, deblended_images = deblended,
                extra_data = extra\<rparr>
      else Inl ValueError_Catalog)"

text \<open>
  Modelled from the spec: the class \<open>DeblendBatch\<close>, imported from
  \<open>btk/blend_batch.py\<close> and constructed as \<open>DeblendBatch(batch_size, max_n_sources,
  catalog_list, n_bands, image_size, segmentation, deblended, extra_data)\<close>; the spec's
  BatchResult, the record of these fields.
\<close>

record DeblendBatch =
  db_batch_size :: nat
  db_max_n_sources :: nat
  db_catalog_list :: "table list"
  db_n_bands :: "nat option"
  db_image_size :: nat
  db_segmentation :: "bool ndarray option"
  db_deblended :: "real ndarray option"
  db_extra_data :: "extra_dict option list option"

text \<open>\<open>xs[i]\<close> on a Python list or along the leading axis of an array.\<close>

definition getitem :: "'a list \<Rightarrow> nat \<Rightarrow> error + 'a" where
  "getitem xs i = (if i < length xs then Inr (xs ! i) else Inl IndexError)"

text \<open>
  \<open>ra, dec = wcs.pixel_to_world_values(x, y); ra *= 3600; dec *= 3600\<close>: the sky
  coordinates of the pixel positions, in arcseconds.
\<close>

definition pixel_to_arcsec ::
  "(real \<times> real \<Rightarrow> real \<times> real) \<Rightarrow> real list \<Rightarrow> real list \<Rightarrow> real list \<times> real list" where
  "pixel_to_arcsec w x y =
     (let world = map w (zip x y)
      in (map (\<lambda>p. fst p * 3600) world, map (\<lambda>p. snd p * 3600) world))"

subsection \<open>Choice of the detection image\<close>

text \<open>
  The constructors of \<open>PeakLocalMax\<close> and \<open>SepSingleBand\<close> accept exactly one of
  \<open>use_mean\<close> and \<open>use_band\<close>; an instance therefore holds one of the two choices.
\<close>

datatype band_choice = UseMean | UseBand nat

definition choose_band :: "bool \<Rightarrow> nat option \<Rightarrow> error + band_choice" where
  "choose_band use_mean use_band =
     (if use_band = None \<and> \<not> use_mean then Inl ValueError_Config
      else if use_band \<noteq> None \<and> use_mean then Inl ValueError_Config
      else Inr (case use_band of None \<Rightarrow> UseMean | Some b \<Rightarrow> UseBand b))"

text \<open>
  \<open>np.mean(blend_image, axis=0)\<close>: the mean over the bands, pixel by pixel (an example
  has at least one band).
\<close>

definition np_mean_axis0 :: "cube \<Rightarrow> real image2d" where
  "np_mean_axis0 c =
     \<lparr>height = cube_height c, width = cube_width c,
      pixels = map (\<lambda>k. sum_list (map (\<lambda>b. b ! k) (bands c)) / real (length (bands c)))
                 [0..<cube_height c * cube_width c]\<rparr>"

text \<open>\<open>blend_image[band]\<close>\<close>

definition band_image :: "cube \<Rightarrow> nat \<Rightarrow> error + real image2d" where
  "band_image c b =
     (case getitem (bands c) b of
        Inl e \<Rightarrow> Inl e
      | Inr px \<Rightarrow> Inr \<lparr>height = cube_height c, width = cube_width c, pixels = px\<rparr>)"

text \<open>
  \<^verbatim>\<open>image = np.mean(blend_image, axis=0) if self.use_mean else blend_image[self.use_band]\<close>
\<close>

definition reduce_image :: "band_choice \<Rightarrow> cube \<Rightarrow> error + real image2d" where
  "reduce_image choice blend_image =
     (case choice of
        UseMean \<Rightarrow> Inr (np_mean_axis0 blend_image)
      | UseBand b \<Rightarrow> band_image blend_image b)"

subsection \<open>\<open>PeakLocalMax\<close>\<close>

record PeakLocalMax =
  plm_max_n_sources :: nat
  plm_sky_level :: real
  plm_threshold_scale :: real
  plm_min_distance :: nat
  plm_band :: band_choice

definition PeakLocalMax_init ::
  "nat \<Rightarrow> real \<Rightarrow> real \<Rightarrow> nat \<Rightarrow> bool \<Rightarrow> nat option \<Rightarrow> error + PeakLocalMax" where
  "PeakLocalMax_init max_n_sources sky_level threshold_scale min_distance use_mean use_band =
     (case choose_band use_mean use_band of
        Inl e \<Rightarrow> Inl e
      | Inr c \<Rightarrow> Inr \<lparr>plm_max_n_sources = max_n_sources, plm_sky_level = sky_level,
                      plm_threshold_scale = threshold_scale, plm_min_distance = min_distance,
                      plm_band = c\<rparr>)"

text \<open>
  \<open>skimage.feature.peak_local_max(image, min_distance, threshold_abs, num_peaks)\<close> is a
  parameter of \<open>deblend\<close>: it returns the \<open>(row, column)\<close> positions of the peaks.
\<close>

type_synonym peak_finder = "real image2d \<Rightarrow> nat \<Rightarrow> real \<Rightarrow> nat \<Rightarrow> (nat \<times> nat) list"

definition PeakLocalMax_deblend ::
  "peak_finder \<Rightarrow> PeakLocalMax \<Rightarrow> nat \<Rightarrow> BlendBatch \<Rightarrow> error + DeblendExample" where
  "PeakLocalMax_deblend peak_local_max self ii blend_batch =
     (case getitem (blend_images blend_batch) ii of
        Inl e \<Rightarrow> Inl e
      | Inr blend_image \<Rightarrow>
     (case reduce_image (plm_band self) blend_image of
        Inl e \<Rightarrow> Inl e
      | Inr img \<Rightarrow>
          (let threshold = plm_threshold_scale self * sqrt (plm_sky_level self);
               coordinates = peak_local_max img (plm_min_distance self) threshold
                               (plm_max_n_sources self);
               x = map (\<lambda>c. real (snd c)) coordinates;
               y = map (\<lambda>c. real (fst c)) coordinates;
               radec = pixel_to_arcsec (wcs blend_batch) x y;
               cat = [(''ra'', fst radec), (''dec'', snd radec), (''x_peak'', x), (''y_peak'', y)]
           in if len_table cat > plm_max_n_sources self then Inl ValueError_TooManySources
              else new_DeblendExample (plm_max_n_sources self) cat None None None None None)))"

text \<open>
  The library function as its documentation gives it for \<open>num_peaks\<close>: "Maximum number of
  peaks. When the number of peaks exceeds \<open>num_peaks\<close>, return \<open>num_peaks\<close> peaks based on
  highest peak intensity." \<open>find_peaks\<close> stands for the search itself: all peaks that
  respect \<open>min_distance\<close> and \<open>threshold_abs\<close>, by decreasing intensity.
\<close>

definition skimage_peak_local_max ::
  "(real image2d \<Rightarrow> nat \<Rightarrow> real \<Rightarrow> (nat \<times> nat) list) \<Rightarrow> peak_finder" where
  "skimage_peak_local_max find_peaks img min_dist threshold_abs num_peaks =
     take num_peaks (find_peaks img min_dist threshold_abs)"

subsection \<open>\<open>SepSingleBand\<close>\<close>

record SepSingleBand =
  ssb_max_n_sources :: nat
  ssb_thresh :: real
  ssb_min_area :: nat
  ssb_band :: band_choice

definition SepSingleBand_init ::
  "nat \<Rightarrow> real \<Rightarrow> nat \<Rightarrow> bool \<Rightarrow> nat option \<Rightarrow> error + SepSingleBand" where
  "SepSingleBand_init max_n_sources thresh min_area use_mean use_band =
     (case choose_band use_mean use_band of
        Inl e \<Rightarrow> Inl e
      | Inr c \<Rightarrow> Inr \<lparr>ssb_max_n_sources = max_n_sources, ssb_thresh = thresh,
                      ssb_min_area = min_area, ssb_band = c\<rparr>)"

text \<open>
  \<open>sep.extract(image, thresh, err=sep.Background(image).globalrms, minarea=...)\<close> is a
  parameter: from the image, the threshold and the minimal area it gives the \<open>(x, y)\<close>
  positions of the detected objects and the segmentation map, in which the pixels of
  object \<open>jj\<close> carry the label \<open>jj + 1\<close>; or it raises.
\<close>

type_synonym sep_extract =
  "real image2d \<Rightarrow> real \<Rightarrow> nat \<Rightarrow> error + ((real \<times> real) list \<times> nat image2d)"

text \<open>
  \<^verbatim>\<open>seg_i = segmentation == jj + 1
  segmentation_exp[jj] = seg_i
  deblended_images[jj] = image * seg_i.astype(image.dtype)\<close>
  One round of the loop on the entries of the two stacks.
\<close>

definition sep_fill ::
  "real image2d \<Rightarrow> nat image2d \<Rightarrow> nat \<Rightarrow> bool list list \<times> real list list \<Rightarrow>
   bool list list \<times> real list list" where
  "sep_fill img segm jj st =
     (let seg_i = map (\<lambda>l. l = jj + 1) (pixels segm)
      in ((fst st)[jj := seg_i],
          (snd st)[jj := map2 (*) (pixels img) (map of_bool seg_i)]))"

definition SepSingleBand_deblend ::
  "sep_extract \<Rightarrow> SepSingleBand \<Rightarrow> nat \<Rightarrow> BlendBatch \<Rightarrow> error + DeblendExample" where
  "SepSingleBand_deblend extract self ii blend_batch =
     (case getitem (blend_images blend_batch) ii of
        Inl e \<Rightarrow> Inl e
      | Inr blend_image \<Rightarrow>
     (case reduce_image (ssb_band self) blend_image of
        Inl e \<Rightarrow> Inl e
      | Inr img \<Rightarrow>
     (case extract img (ssb_thresh self) (ssb_min_area self) of
        Inl e \<Rightarrow> Inl e
      | Inr (objects, segm) \<Rightarrow>
          if length objects > ssb_max_n_sources self then Inl ValueError_TooManySources
          else
            (let image_shape = [height img, width img];
                 segmentation_exp = np_zeros_bool (ssb_max_n_sources self) image_shape;
                 deblended = np_zeros (ssb_max_n_sources self) image_shape;
                 n_objects = length objects;
                 filled = fold (sep_fill img segm) [0..<n_objects]
                            (entries segmentation_exp, entries deblended);
                 x = map fst objects;
                 y = map snd objects;
                 radec = pixel_to_arcsec (wcs blend_batch) x y;
                 cat = [(''ra'', fst radec), (''dec'', snd radec), (''x_peak'', x), (''y_peak'', y)]
             in new_DeblendExample (ssb_max_n_sources self) cat (Some 1)
                  (Some (image_size blend_batch))
                  (Some \<lparr>dims = image_shape, entries = fst filled\<rparr>)
                  (Some \<lparr>dims = 1 # image_shape, entries = map (map (max 0)) (snd filled)\<rparr>)
                  None))))"

subsection \<open>\<open>SepMultiBand\<close>\<close>

record SepMultiBand =
  smb_max_n_sources :: nat
  matching_threshold :: real
  smb_thresh :: real

text \<open>A sky position \<open>(ra, dec)\<close> in arcseconds, one element of a \<open>SkyCoord\<close> array.\<close>

type_synonym skycoord = "real \<times> real"

text \<open>
  \<open>_, distance2d, _ = c1.match_to_catalog_sky(c2); distance2d.arcsec\<close>: for every
  position of \<open>c1\<close> the on-sky separation, in arcseconds, to its nearest neighbour in
  \<open>c2\<close>. The great-circle separation of two positions is astropy's and is the parameter
  \<open>separation\<close>; \<open>nearest_distance\<close> is the least separation to a non-empty \<open>c2\<close>.
  astropy raises on an empty catalog \<open>c2\<close>.
\<close>

definition nearest_distance :: "(skycoord \<Rightarrow> skycoord \<Rightarrow> real) \<Rightarrow> skycoord \<Rightarrow> skycoord list \<Rightarrow> real" where
  "nearest_distance separation c c2 =
     fold min (map (separation c) (tl c2)) (separation c (hd c2))"

definition match_to_catalog_sky ::
  "(skycoord \<Rightarrow> skycoord \<Rightarrow> real) \<Rightarrow> skycoord list \<Rightarrow> skycoord list \<Rightarrow> error + real list" where
  "match_to_catalog_sky separation c1 c2 =
     (if c2 = [] then Inl ExternalError
      else Inr (map (\<lambda>c. nearest_distance separation c c2) c1))"

text \<open>\<open>values[mask]\<close> with a boolean mask: the values at the positions where it is true.\<close>

definition mask_select :: "'a list \<Rightarrow> bool list \<Rightarrow> 'a list" where
  "mask_select vals msk = map fst (filter snd (zip vals msk))"

text \<open>
  The merge of one band's detections with the running list of coordinates (the
  \<open>if len(c1) > 0 and len(c2) > 0: ... else: ...\<close> of the loop body).
\<close>

definition merge_detections ::
  "(skycoord \<Rightarrow> skycoord \<Rightarrow> real) \<Rightarrow> real \<Rightarrow> real list \<times> real list \<Rightarrow> real list \<times> real list \<Rightarrow>
   error + (real list \<times> real list)" where
  "merge_detections separation threshold coordinates detections =
     (let ra_coordinates = fst coordinates; dec_coordinates = snd coordinates;
          ra_detections = fst detections; dec_detections = snd detections;
          c1 = zip ra_detections dec_detections;
          c2 = zip ra_coordinates dec_coordinates
      in if length c1 > 0 \<and> length c2 > 0 then
           (case match_to_catalog_sky separation c1 c2 of
              Inl e \<Rightarrow> Inl e
            | Inr distance2d \<Rightarrow>
                (let keep = map (\<lambda>d. d > threshold) distance2d
                 in Inr (ra_coordinates @ mask_select ra_detections keep,
                         dec_coordinates @ mask_select dec_detections keep)))
         else Inr (ra_coordinates @ ra_detections, dec_coordinates @ dec_detections))"

text \<open>
  \<open>for band in range(1, image.shape[0])\<close>: the remaining band images in order, the running
  coordinates threaded through; any exception ends the loop.
\<close>

fun band_loop ::
  "sep_extract \<Rightarrow> (skycoord \<Rightarrow> skycoord \<Rightarrow> real) \<Rightarrow> SepMultiBand \<Rightarrow>
   (real \<times> real \<Rightarrow> real \<times> real) \<Rightarrow> real image2d list \<Rightarrow> real list \<times> real list \<Rightarrow>
   error + (real list \<times> real list)" where
  "band_loop extract separation self w [] coordinates = Inr coordinates"
| "band_loop extract separation self w (band_img # rest) coordinates =
     (case extract band_img (smb_thresh self) 5 of
        Inl e \<Rightarrow> Inl e
      | Inr (objects, segm) \<Rightarrow>
          if length objects > smb_max_n_sources self then Inl ValueError_TooManySources
          else
            (case merge_detections separation (matching_threshold self) coordinates
                    (pixel_to_arcsec w (map fst objects) (map snd objects)) of
               Inl e \<Rightarrow> Inl e
             | Inr coordinates' \<Rightarrow> band_loop extract separation self w rest coordinates'))"

definition cube_images :: "cube \<Rightarrow> real image2d list" where
  "cube_images c =
     map (\<lambda>px. \<lparr>height = cube_height c, width = cube_width c, pixels = px\<rparr>) (bands c)"

definition SepMultiBand_deblend ::
  "sep_extract \<Rightarrow> (skycoord \<Rightarrow> skycoord \<Rightarrow> real) \<Rightarrow> SepMultiBand \<Rightarrow> nat \<Rightarrow> BlendBatch \<Rightarrow>
   error + DeblendExample" where
  "SepMultiBand_deblend extract separation self ii blend_batch =
     (case getitem (blend_images blend_batch) ii of
        Inl e \<Rightarrow> Inl e
      | Inr img \<Rightarrow>
     (case band_image img 0 of
        Inl e \<Rightarrow> Inl e
      | Inr image0 \<Rightarrow>
     (case extract image0 (smb_thresh self) 5 of
        Inl e \<Rightarrow> Inl e
      | Inr (objects, segm) \<Rightarrow>
          if length objects > smb_max_n_sources self then Inl ValueError_TooManySources
          else
            (case band_loop extract separation self (wcs blend_batch)
                    (drop 1 (cube_images img))
                    (pixel_to_arcsec (wcs blend_batch) (map fst objects) (map snd objects)) of
               Inl e \<Rightarrow> Inl e
             | Inr coordinates \<Rightarrow>
                 new_DeblendExample (smb_max_n_sources self)
                   [(''ra'', fst coordinates), (''dec'', snd coordinates)]
                   None None None None None))))"

subsection \<open>Slices along the leading axis\<close>

text \<open>
  \<open>target[:k] = vals\<close> on the entries of an array, the other axes agreeing: the first
  \<open>min k (len target)\<close> entries are replaced. numpy accepts as many entries as it replaces,
  or a single entry, which it repeats; anything else is the \<open>ValueError\<close> "could not
  broadcast input array".
\<close>

definition assign_to :: "nat \<Rightarrow> 'a list \<Rightarrow> 'a list \<Rightarrow> error + 'a list" where
  "assign_to k target vals =
     (let m = min k (length target)
      in if length vals = m then Inr (vals @ drop m target)
         else if length vals = 1 then Inr (replicate m (hd vals) @ drop m target)
         else Inl ValueError_Shape)"

text \<open>\<open>xs[start:]\<close>, where a negative \<open>start\<close> counts from the end.\<close>

definition slice_from :: "int \<Rightarrow> 'a list \<Rightarrow> 'a list" where
  "slice_from start xs =
     drop (nat (if start < 0 then max 0 (int (length xs) + start) else start)) xs"

subsection \<open>\<open>DeepDisc\<close>\<close>

record DeepDisc =
  dd_max_n_sources :: nat
  allow_over_n_sources :: bool

text \<open>
  The image the reader produces, an array \<open>(height, width, channels)\<close> in row-major order,
  and what this file reads from the predictor's output: the centres \<open>(x, y)\<close> of the
  predicted boxes and the predicted masks, a three-dimensional array \<open>(n, h, w)\<close>. The
  reader (\<open>reader_save\<close>) and the predictor (\<open>self.predictor\<close>) are parameters; both may
  raise.
\<close>

record image_hwc =
  img_height :: nat
  img_width :: nat
  img_channels :: nat
  img_data :: "real list"

record prediction =
  pred_centers :: "(real \<times> real) list"
  pred_masks :: "bool ndarray"

text \<open>\<open>rimg = np.transpose(img, (2, 0, 1))\<close>, as the list of its channels.\<close>

definition transpose_201 :: "image_hwc \<Rightarrow> real list list" where
  "transpose_201 img =
     map (\<lambda>c. map (\<lambda>k. img_data img ! (k * img_channels img + c))
                [0..<img_height img * img_width img])
       [0..<img_channels img]"

text \<open>
  numpy's broadcasting of masks \<open>(n, h, w)\<close> against the image's \<open>(height, width)\<close>, in
  \<open>segs[:k] = segmentation[:k]\<close> and in \<open>rimg * segmentation[i]\<close>: each of \<open>h\<close> and \<open>w\<close>
  must be the image's or 1, and an axis of length 1 is repeated. Masks of the image's own
  height and width are taken as they are.
\<close>

definition masks_fit :: "nat list \<Rightarrow> nat \<Rightarrow> nat \<Rightarrow> bool" where
  "masks_fit ds h w =
     (length ds = 2 \<and> (ds ! 0 = h \<or> ds ! 0 = 1) \<and> (ds ! 1 = w \<or> ds ! 1 = 1))"

definition broadcast_mask :: "nat list \<Rightarrow> nat \<Rightarrow> nat \<Rightarrow> 'a list \<Rightarrow> 'a list" where
  "broadcast_mask ds h w seg =
     (if ds = [h, w] then seg
      else map (\<lambda>k. seg ! ((if ds ! 0 = 1 then 0 else k div w) * (ds ! 1) +
                          (if ds ! 1 = 1 then 0 else k mod w)))
             [0..<h * w])"

text \<open>
  \<open>rimg * segmentation[i].astype(img.dtype)\<close>: every channel multiplied by the mask, the
  result \<open>(channels, height, width)\<close> flattened.
\<close>

definition cutout :: "real list list \<Rightarrow> bool list \<Rightarrow> real list" where
  "cutout rimg seg = concat (map (\<lambda>chan. map2 (*) chan (map of_bool seg)) rimg)"

text \<open>
  \<^verbatim>\<open>for i in range(segmentation.shape[0]):
      deblended_images[i] = rimg * segmentation[i].astype(img.dtype)\<close>
\<close>

definition deepdisc_fill :: "real list list \<Rightarrow> bool list list \<Rightarrow> real list list \<Rightarrow> real list list" where
  "deepdisc_fill rimg masks deblended =
     fold (\<lambda>i d. d[i := cutout rimg (masks ! i)]) [0..<length masks] deblended"

definition DeepDisc_deblend ::
  "(cube \<Rightarrow> error + image_hwc) \<Rightarrow> (image_hwc \<Rightarrow> error + prediction) \<Rightarrow> DeepDisc \<Rightarrow> nat \<Rightarrow>
   BlendBatch \<Rightarrow> error + DeblendExample" where
  "DeepDisc_deblend reader predictor self ii blend_batch =
     (case getitem (blend_images blend_batch) ii of
        Inl e \<Rightarrow> Inl e
      | Inr blend_image \<Rightarrow>
     (case reader blend_image of
        Inl e \<Rightarrow> Inl e
      | Inr img \<Rightarrow>
     (case predictor img of
        Inl e \<Rightarrow> Inl e
      | Inr output \<Rightarrow>
          (let max_n = dd_max_n_sources self;
               centers = pred_centers output;
               radec = pixel_to_arcsec (wcs blend_batch) (map fst centers) (map snd centers);
               cat = [(''ra'', fst radec), (''dec'', snd radec),
                      (''x_peak'', map fst centers), (''y_peak'', map snd centers)];
               segm = pred_masks output;
               n = length (entries segm);
               hw = [img_height img, img_width img];
               chw = [img_channels img, img_height img, img_width img];
               rimg = transpose_201 img;
               masks = map (broadcast_mask (dims segm) (img_height img) (img_width img))
                         (entries segm)
           in if n > max_n \<and> \<not> allow_over_n_sources self then Inl ValueError_TooManySources
              else if n > max_n \<and> allow_over_n_sources self then
                (if \<not> masks_fit (dims segm) (img_height img) (img_width img)
                 then Inl ValueError_Shape
                 else
                 (case assign_to max_n (entries (np_zeros_bool max_n hw)) (take max_n masks) of
                    Inl e \<Rightarrow> Inl e
                  | Inr segs \<Rightarrow>
                      (let extra_segs = slice_from (int max_n - int n) (entries segm);
                           deblended = deepdisc_fill rimg masks (entries (np_zeros n chw));
                           deblended_ims = take max_n deblended;
                           extra_deblend = slice_from (int max_n - int n) deblended
                       in new_DeblendExample max_n cat (Some (img_channels img))
                            (Some (image_size blend_batch))
                            (Some \<lparr>dims = hw, entries = segs\<rparr>)
                            (Some \<lparr>dims = chw, entries = deblended_ims\<rparr>)
                            (Some [(''segs'',
                                    BoolArray \<lparr>dims = dims segm, entries = extra_segs\<rparr>),
                                   (''deblended_images'',
                                    RealArray \<lparr>dims = chw, entries = extra_deblend\<rparr>)]))))
              else
                (if \<not> masks_fit (dims segm) (img_height img) (img_width img)
                 then Inl ValueError_Shape
                 else
                 (case assign_to n (entries (np_zeros_bool max_n hw)) masks of
                    Inl e \<Rightarrow> Inl e
                  | Inr segs \<Rightarrow>
                      (let deblended = deepdisc_fill rimg masks (entries (np_zeros max_n chw))
                       in new_DeblendExample max_n cat (Some (img_channels img))
                            (Some (image_size blend_batch))
                            (Some \<lparr>dims = hw, entries = segs\<rparr>)
                            (Some \<lparr>dims = chw, entries = deblended\<rparr>)
                            (Some []))))))))"

subsection \<open>\<open>Scarlet\<close>\<close>

record Scarlet =
  sc_max_n_sources :: nat

text \<open>
  The result built in two places of \<open>Scarlet.deblend\<close>, for an empty catalog and in the
  handler of \<open>LinAlgError\<close>:
  \<^verbatim>\<open>t = Table(); t["ra"] = []; t["dec"] = []
  deblended_images = np.zeros((self.max_n_sources, n_bands, img_size, img_size))
  return DeblendExample(self.max_n_sources, t, n_bands, img_size, None, deblended_images)\<close>
\<close>

definition scarlet_empty_example :: "nat \<Rightarrow> nat \<Rightarrow> nat \<Rightarrow> error + DeblendExample" where
  "scarlet_empty_example max_n n_bands img_size =
     new_DeblendExample max_n [(''ra'', []), (''dec'', [])] (Some n_bands) (Some img_size) None
       (Some (np_zeros max_n [n_bands, img_size, img_size])) None"

text \<open>\<open>catalog["ra"]\<close>: the column, present after the \<open>assert\<close> on the column names.\<close>

definition column :: "table \<Rightarrow> string \<Rightarrow> real list" where
  "column t name = (case map_of t name of Some col \<Rightarrow> col | None \<Rightarrow> [])"

text \<open>
  The calls into scarlet and the survey utilities are three parameters, each of which may
  raise: \<open>read_batch\<close> (the PSF, the survey and its filters, read before the test for an
  empty catalog), \<open>observe\<close> (background, model frame and observation, built before the
  \<open>try\<close>) and \<open>fit\<close> (the library calls inside the \<open>try\<close>: initialisation of the
  sources from the positions \<open>ra_dec\<close> in degrees, the fit of the blend, and the rendering
  of every source).
  \<^verbatim>\<open>deblended_images[: len(individual_sources)] = individual_sources\<close> follows numpy: an
  empty list is an array of shape \<open>(0,)\<close>, which fits only a last axis of length 0.
\<close>

definition Scarlet_deblend ::
  "(BlendBatch \<Rightarrow> error + 'info) \<Rightarrow> ('info \<Rightarrow> cube \<Rightarrow> error + 'obs) \<Rightarrow>
   ('obs \<Rightarrow> (real \<times> real) list \<Rightarrow> error + scarlet_source list) \<Rightarrow>
   Scarlet \<Rightarrow> table list option \<Rightarrow> nat \<Rightarrow> BlendBatch \<Rightarrow> error + DeblendExample" where
  "Scarlet_deblend read_batch observe fit self reference_catalogs ii blend_batch =
     (case getitem (case reference_catalogs of
                      None \<Rightarrow> catalog_list blend_batch
                    | Some refs \<Rightarrow> refs) ii of
        Inl e \<Rightarrow> Inl e
      | Inr cat \<Rightarrow>
          if \<not> (''ra'' \<in> set (colnames cat) \<and> ''dec'' \<in> set (colnames cat))
          then Inl AssertionError
          else
     (case getitem (blend_images blend_batch) ii of
        Inl e \<Rightarrow> Inl e
      | Inr img \<Rightarrow>
     (case read_batch blend_batch of
        Inl e \<Rightarrow> Inl e
      | Inr info \<Rightarrow>
          (let max_n = sc_max_n_sources self;
               n_bands = length (bands img);
               img_size = image_size blend_batch
           in if len_table cat = 0 then scarlet_empty_example max_n n_bands img_size
              else
     (case observe info img of
        Inl e \<Rightarrow> Inl e
      | Inr observations \<Rightarrow>
          (let ra_dec = zip (map (\<lambda>r. r / 3600) (column cat ''ra''))
                            (map (\<lambda>d. d / 3600) (column cat ''dec''))
           in case fit observations ra_dec of
                Inl e \<Rightarrow>
                  if e = LinAlgError then scarlet_empty_example max_n n_bands img_size
                  else Inl e
              | Inr sources \<Rightarrow>
                  (let individual_sources = map rendered sources;
                       selected_peaks = map (\<lambda>s. (snd (center s), fst (center s))) sources;
                       zeros = entries (np_zeros max_n [n_bands, img_size, img_size])
                   in case (if individual_sources = []
                            then (if img_size = 0 then Inr zeros else Inl ValueError_Shape)
                            else assign_to (length individual_sources) zeros
                                   individual_sources) of
                        Inl e \<Rightarrow> Inl e
                      | Inr deblended \<Rightarrow>
                          if length selected_peaks \<noteq> len_table cat then Inl AssertionError
                          else new_DeblendExample max_n cat (Some n_bands)
                                 (Some (image_size blend_batch)) None
                                 (Some \<lparr>dims = [n_bands, img_size, img_size],
                                        entries = map (map (max 0)) deblended\<rparr>)
                                 (Some [(''scarlet_sources'', ScarletSources sources)]))))))))"

subsection \<open>\<open>multiprocess\<close>\<close>

text \<open>
  Modelled from the spec: \<open>btk.multiprocess.multiprocess\<close>, which \<open>batch_call\<close> imports
  and whose source is not part of \<open>deblend.py\<close>. The spec describes it as the primitive
  "run these N independent (index, batch) units across W workers, return results as an
  order-preserving sequence, propagate the first raised error and stop", with "1 = fully
  sequential", results "in the original example order regardless of completion order",
  by "index-preserving collection, not append-on-completion". The three definitions below
  are its parts.

  The sequential run: the calls one after the other in the order of the arguments, the
  first exception ending the run.
\<close>

fun starmap :: "('a \<Rightarrow> error + 'r) \<Rightarrow> 'a list \<Rightarrow> error + 'r list" where
  "starmap func [] = Inr []"
| "starmap func (a # rest) =
     (case func a of
        Inl e \<Rightarrow> Inl e
      | Inr r \<Rightarrow> (case starmap func rest of Inl e \<Rightarrow> Inl e | Inr rs \<Rightarrow> Inr (r # rs)))"

text \<open>
  Modelled from the spec: the run on a pool of workers. \<open>completion\<close> is the order in
  which the units of work finish, which the scheduler decides; the result of unit \<open>i\<close> is
  stored in slot \<open>i\<close>, and the first exception that is raised ends the run. A run in which
  a unit never finishes returns no list.
\<close>

fun pool_collect ::
  "('a \<Rightarrow> error + 'r) \<Rightarrow> 'a list \<Rightarrow> nat list \<Rightarrow> 'r option list \<Rightarrow> error + 'r option list" where
  "pool_collect func args [] slots = Inr slots"
| "pool_collect func args (i # later) slots =
     (if i < length args then
        (case func (args ! i) of
           Inl e \<Rightarrow> Inl e
         | Inr r \<Rightarrow> pool_collect func args later (slots[i := Some r]))
      else pool_collect func args later slots)"

definition pool_starmap :: "('a \<Rightarrow> error + 'r) \<Rightarrow> 'a list \<Rightarrow> nat list \<Rightarrow> error + 'r list" where
  "pool_starmap func args completion =
     (case pool_collect func args completion (replicate (length args) None) of
        Inl e \<Rightarrow> Inl e
      | Inr slots \<Rightarrow> (case those slots of None \<Rightarrow> Inl ExternalError | Some rs \<Rightarrow> Inr rs))"

text \<open>
  Modelled from the spec: \<open>multiprocess(func, args_iter, kwargs_iter, njobs)\<close>, sequential
  for one job and pooled for more.
\<close>

definition multiprocess ::
  "('a \<Rightarrow> error + 'r) \<Rightarrow> 'a list \<Rightarrow> nat \<Rightarrow> nat list \<Rightarrow> error + 'r list" where
  "multiprocess func args_iter njobs completion =
     (if njobs > 1 then pool_starmap func args_iter completion
      else starmap func args_iter)"

subsection \<open>\<open>Deblender.batch_call\<close>\<close>

text \<open>
  \<open>np.array([db_example.field for db_example in output])\<close>: the arrays of the examples
  stacked along a new leading axis. A list in which an entry is \<open>None\<close>, or in which the
  shapes differ, is not an array of numbers; numpy (1.24 and later) raises \<open>ValueError\<close>
  for it ("inhomogeneous shape").
\<close>

definition np_array :: "'a ndarray option list \<Rightarrow> error + 'a ndarray" where
  "np_array xs =
     (case those xs of
        None \<Rightarrow> Inl ValueError_Shape
      | Some [] \<Rightarrow> Inr \<lparr>dims = [], entries = []\<rparr>
      | Some (a # rest) \<Rightarrow>
          if \<forall>b \<in> set rest. shape b = shape a
          then Inr \<lparr>dims = shape a, entries = map flatten (a # rest)\<rparr>
          else Inl ValueError_Shape)"

text \<open>
  \<^verbatim>\<open>if output[0].segmentation is not None:
      segmentation = np.array([db_example.segmentation for db_example in output])\<close>
\<close>

definition stack_segmentation :: "DeblendExample \<Rightarrow> DeblendExample list \<Rightarrow> error + bool ndarray option" where
  "stack_segmentation first output =
     (if segmentation first \<noteq> None then
        (case np_array (map segmentation output) of Inl e \<Rightarrow> Inl e | Inr a \<Rightarrow> Inr (Some a))
      else Inr None)"

text \<open>
  \<^verbatim>\<open>if output[0].deblended_images is not None:
      deblended = np.array([db_example.deblended_images for db_example in output])
      _, _, n_bands, _, _ = deblended.shape\<close>
  The unpacking raises \<open>ValueError\<close> unless the stacked array has five axes;
  \<open>n_bands\<close> is the length of the third.
\<close>

definition stack_deblended ::
  "DeblendExample \<Rightarrow> DeblendExample list \<Rightarrow> error + (real ndarray option \<times> nat option)" where
  "stack_deblended first output =
     (if deblended_images first \<noteq> None then
        (case np_array (map deblended_images output) of
           Inl e \<Rightarrow> Inl e
         | Inr deblended \<Rightarrow>
             (if length (shape deblended) = 5
              then Inr (Some deblended, Some (shape deblended ! 2))
              else Inl ValueError_Shape))
      else Inr (None, None))"

text \<open>
  The part of \<open>batch_call\<close> after the call of \<open>multiprocess\<close>: the results of the
  examples, \<open>output\<close>, are reconciled into one \<open>DeblendBatch\<close>. \<open>output[0]\<close> raises
  \<open>IndexError\<close> on an empty list.
\<close>

definition reconcile :: "nat \<Rightarrow> BlendBatch \<Rightarrow> DeblendExample list \<Rightarrow> error + DeblendBatch" where
  "reconcile max_n blend_batch output =
     (let cats = map catalog output
      in case getitem output 0 of
           Inl e \<Rightarrow> Inl e
         | Inr first \<Rightarrow>
        (case stack_segmentation first output of
           Inl e \<Rightarrow> Inl e
         | Inr segm \<Rightarrow>
        (case stack_deblended first output of
           Inl e \<Rightarrow> Inl e
         | Inr (deblended, n_bands) \<Rightarrow>
             (let extra = (if extra_data first \<noteq> None
                           then Some (map extra_data output) else None)
              in Inr \<lparr>db_batch_size = batch_size blend_batch,
                      db_max_n_sources = max_n,
                      db_catalog_list = cats,
                      db_n_bands = n_bands,
                      db_image_size = image_size blend_batch,
                      db_segmentation = segm,
                      db_deblended = deblended,
                      db_extra_data = extra\<rparr>))))"

text \<open>
  \<open>batch_call\<close> for a deblender whose \<open>deblend\<close> method (with the keyword arguments of
  the call) is \<open>deblend\<close> and whose \<open>max_n_sources\<close> is \<open>max_n\<close>.
\<close>

definition batch_call ::
  "(nat \<Rightarrow> BlendBatch \<Rightarrow> error + DeblendExample) \<Rightarrow> nat \<Rightarrow> BlendBatch \<Rightarrow> nat \<Rightarrow> nat list \<Rightarrow>
   error + DeblendBatch" where
  "batch_call deblend max_n blend_batch njobs completion =
     (let args_iter = map (\<lambda>ii. (ii, blend_batch)) [0..<batch_size blend_batch]
      in case multiprocess (\<lambda>(ii, b). deblend ii b) args_iter njobs completion of
           Inl e \<Rightarrow> Inl e
         | Inr output \<Rightarrow> reconcile max_n blend_batch output)"

subsection \<open>\<open>DeblendGenerator._get_unique_deblender_names\<close>\<close>

text \<open>Python's \<open>f"{n}"\<close> for a non-negative integer: its decimal digits.\<close>

definition digit_char :: "nat \<Rightarrow> char" where
  "digit_char d = ''0123456789'' ! d"

function str_nat :: "nat \<Rightarrow> string" where
  "str_nat n = (if n < 10 then [digit_char n] else str_nat (n div 10) @ [digit_char (n mod 10)])"
  by pat_completeness auto
termination
  by (relation "measure id") auto

declare str_nat.simps [simp del]

text \<open>
  \<^verbatim>\<open>names_counts = {name: 0 for name in set(deblender_names)
                  if deblender_names.count(name) > 1}\<close>
\<close>

definition names_counts_init :: "string list \<Rightarrow> (string \<rightharpoonup> nat)" where
  "names_counts_init deblender_names =
     (\<lambda>name. if name \<in> set deblender_names \<and> count_list deblender_names name > 1
             then Some 0 else None)"

text \<open>
  \<^verbatim>\<open>for ii, name in enumerate(deblender_names):
      if name in names_counts:
          deblender_names[ii] += f"_{names_counts[name]}"
          names_counts[name] += 1\<close>
  The loop visits the names in order; entry \<open>ii\<close> is rewritten in place and the dictionary
  is threaded through. The function returns the rewritten entries of the names still to visit.
\<close>

fun rename_loop :: "(string \<rightharpoonup> nat) \<Rightarrow> string list \<Rightarrow> string list" where
  "rename_loop names_counts [] = []"
| "rename_loop names_counts (name # rest) =
     (case names_counts name of
        Some c \<Rightarrow> (name @ ''_'' @ str_nat c) # rename_loop (names_counts(name \<mapsto> c + 1)) rest
      | None \<Rightarrow> name # rename_loop names_counts rest)"

definition get_unique_deblender_names :: "string list \<Rightarrow> string list" where
  "get_unique_deblender_names deblender_names =
     rename_loop (names_counts_init deblender_names) deblender_names"

subsection \<open>Example inputs\<close>

text \<open>
  Small concrete inputs, on which the properties below are evaluated. The example world
  coordinate system maps one pixel to one arcsecond; all positions lie on the equator
  (\<open>dec = 0\<close>), where the great-circle separation of two positions less than half a
  turn apart is the difference of their right ascensions.
\<close>

definition example_wcs :: "real \<times> real \<Rightarrow> real \<times> real" where
  "example_wcs p = (fst p / 3600, snd p / 3600)"

definition equator_separation :: "skycoord \<Rightarrow> skycoord \<Rightarrow> real" where
  "equator_separation c c' = \<bar>fst c - fst c'\<bar>"

text \<open>
  Two examples of one row and three columns in two bands: the first has a bright pixel at
  \<open>x = 0\<close> in band 0 and one at \<open>x = 2\<close> in band 1, the second is empty.
\<close>

definition example_batch :: BlendBatch where
  "example_batch =
     \<lparr>batch_size = 2, image_size = 3,
      blend_images = [\<lparr>cube_height = 1, cube_width = 3, bands = [[9, 0, 0], [0, 0, 7]]\<rparr>,
                      \<lparr>cube_height = 1, cube_width = 3, bands = [[0, 0, 0], [0, 0, 0]]\<rparr>],
      catalog_list = [[(''ra'', [0, 0]), (''dec'', [0, 0])], [(''ra'', []), (''dec'', [])]],
      wcs = example_wcs\<rparr>"

text \<open>A detector for the examples: every positive pixel of the row is one object.\<close>

definition bright_columns :: "real image2d \<Rightarrow> nat list" where
  "bright_columns img = filter (\<lambda>k. pixels img ! k > 0) [0..<width img]"

definition example_extract :: sep_extract where
  "example_extract img thresh min_area =
     Inr (map (\<lambda>k. (real k, 0)) (bright_columns img),
          \<lparr>height = height img, width = width img,
           pixels = map (\<lambda>k. if pixels img ! k > 0
                               then Suc (length (filter (\<lambda>j. pixels img ! j > 0) [0..<k]))
                               else 0) [0..<width img]\<rparr>)"

definition example_find_peaks :: "real image2d \<Rightarrow> nat \<Rightarrow> real \<Rightarrow> (nat \<times> nat) list" where
  "example_find_peaks img min_dist threshold_abs = map (\<lambda>k. (0, k)) (bright_columns img)"

text \<open>A peak finder on band 1 that returns at most one source.\<close>

definition example_peaks :: PeakLocalMax where
  "example_peaks =
     \<lparr>plm_max_n_sources = 1, plm_sky_level = 1, plm_threshold_scale = 5,
      plm_min_distance = 2, plm_band = UseBand 1\<rparr>"

text \<open>
  A reader that interleaves the bands into channels, and a predictor that finds one
  instance per pixel in which some channel is positive: the box is centred on the pixel
  and the mask covers that pixel alone.
\<close>

definition example_reader :: "cube \<Rightarrow> error + image_hwc" where
  "example_reader c =
     Inr \<lparr>img_height = cube_height c, img_width = cube_width c,
          img_channels = length (bands c),
          img_data = concat (map (\<lambda>k. map (\<lambda>b. b ! k) (bands c))
                               [0..<cube_height c * cube_width c])\<rparr>"

definition bright_pixels :: "image_hwc \<Rightarrow> nat list" where
  "bright_pixels img =
     filter (\<lambda>k. \<exists>c \<in> set [0..<img_channels img]. img_data img ! (k * img_channels img + c) > 0)
       [0..<img_height img * img_width img]"

definition example_predictor :: "image_hwc \<Rightarrow> error + prediction" where
  "example_predictor img =
     Inr \<lparr>pred_centers = map (\<lambda>k. (real (k mod img_width img), real (k div img_width img)))
                            (bright_pixels img),
          pred_masks = \<lparr>dims = [img_height img, img_width img],
                        entries = map (\<lambda>k. map (\<lambda>j. j = k) [0..<img_height img * img_width img])
                                    (bright_pixels img)\<rparr>\<rparr>"

text \<open>
  Two results of one example with the same catalog, the first without optional fields,
  the second with a segmentation.
\<close>

definition example_plain :: DeblendExample where
  "example_plain =
     \<lparr>ex_max_n_sources = 1, catalog = [(''ra'', [0]), (''dec'', [0])], ex_n_bands = None,
      ex_image_size = None, segmentation = None, deblended_images = None,
      extra_data = None\<rparr>"

definition example_segmented :: DeblendExample where
  "example_segmented =
     example_plain\<lparr>catalog := [(''ra'', [2]), (''dec'', [0])],
                    segmentation := Some \<lparr>dims = [1, 1], entries = [[True]]\<rparr>\<rparr>"

section \<open>Properties\<close>

subsection \<open>Unfolding the example inputs\<close>

lemmas example_sep_defs =
  example_extract_def example_batch_def getitem_def band_image_def bright_columns_def upt_rec
  cube_images_def pixel_to_arcsec_def example_wcs_def merge_detections_def
  match_to_catalog_sky_def nearest_distance_def equator_separation_def mask_select_def
  len_table_def Let_def new_DeblendExample_def

lemmas example_deepdisc_defs =
  DeepDisc_deblend_def Let_def example_reader_def example_predictor_def bright_pixels_def
  example_batch_def getitem_def pixel_to_arcsec_def example_wcs_def transpose_201_def
  cutout_def deepdisc_fill_def assign_to_def slice_from_def np_zeros_def np_zeros_bool_def
  np_full_def upt_rec masks_fit_def broadcast_mask_def new_DeblendExample_def
  len_table_def

subsection \<open>Names of deblenders\<close>

lemma length_rename_loop: "length (rename_loop m ns) = length ns"
  by (induction ns arbitrary: m) (auto split: option.splits)

lemma rename_loop_nth:
  "i < length ns \<Longrightarrow>
   rename_loop m ns ! i =
     (case m (ns ! i) of
        None \<Rightarrow> ns ! i
      | Some c \<Rightarrow> ns ! i @ ''_'' @ str_nat (c + count_list (take i ns) (ns ! i)))"
proof (induction ns arbitrary: m i)
  case Nil
  then show ?case by simp
next
  case (Cons n ns)
  show ?case
  proof (cases i)
    case 0
    then show ?thesis by (simp split: option.splits)
  next
    case (Suc j)
    with Cons.prems have j: "j < length ns" by simp
    show ?thesis
    proof (cases "m n")
      case None
      with Suc j Cons.IH [of j m] show ?thesis
        by (auto split: option.splits)
    next
      case (Some c)
      have step: "rename_loop m (n # ns) ! i = rename_loop (m(n \<mapsto> c + 1)) ns ! j"
        using Some Suc by simp
      note ih = Cons.IH [OF j, of "m(n \<mapsto> c + 1)"]
      show ?thesis
      proof (cases "ns ! j = n")
        case True
        with Some Suc show ?thesis
          unfolding step ih by simp
      next
        case False
        with Some Suc show ?thesis
          unfolding step ih by (simp split: option.splits)
      qed
    qed
  qed
qed

text \<open>
  C8 (as the code has it). Every instance whose type name occurs more than once receives
  the suffix \<open>_k\<close>, where \<open>k\<close> is the number of earlier instances of the same type name:
  the first one receives \<open>_0\<close>, the second \<open>_1\<close>, and so on in construction order. A name
  that occurs once is left as it is. The number of names is unchanged.
\<close>

theorem unique_names_suffix_from_zero:
  "length (get_unique_deblender_names ns) = length ns \<and>
   (\<forall>i < length ns.
      get_unique_deblender_names ns ! i =
        (if count_list ns (ns ! i) > 1
         then ns ! i @ ''_'' @ str_nat (count_list (take i ns) (ns ! i))
         else ns ! i))"
  by (simp add: get_unique_deblender_names_def length_rename_loop rename_loop_nth
      names_counts_init_def)

theorem unique_names_suffix_from_zero_witness:
  "get_unique_deblender_names [''SepSingleBand'', ''Scarlet'', ''SepSingleBand''] ! 2
     = ''SepSingleBand_1'' \<and>
   get_unique_deblender_names [''SepSingleBand'', ''Scarlet'', ''SepSingleBand''] ! 1
     = ''Scarlet''"
  using unique_names_suffix_from_zero [of "[''SepSingleBand'', ''Scarlet'', ''SepSingleBand'']"]
  by (simp add: digit_char_def str_nat.simps)

text \<open>
  C8 (as stated) fails: with two instances of one type the first does not keep the bare
  type name, it becomes \<open>SepSingleBand_0\<close>.
\<close>

theorem first_instance_keeps_bare_name_counterexample:
  "get_unique_deblender_names [''SepSingleBand'', ''SepSingleBand'']
     = [''SepSingleBand_0'', ''SepSingleBand_1''] \<and>
   get_unique_deblender_names [''SepSingleBand'', ''SepSingleBand''] ! 0 \<noteq> ''SepSingleBand''"
  by (simp add: get_unique_deblender_names_def names_counts_init_def digit_char_def
      str_nat.simps)

subsection \<open>Sequential and pooled runs\<close>

lemma starmap_all2: "starmap f args = Inr rs \<longleftrightarrow> list_all2 (\<lambda>a r. f a = Inr r) args rs"
proof (induction args arbitrary: rs)
  case Nil
  then show ?case by auto
next
  case (Cons a args)
  show ?case
    by (cases rs) (auto simp: Cons.IH [symmetric] split: sum.splits)
qed

lemma starmap_Inr_iff:
  "starmap f args = Inr rs \<longleftrightarrow>
     length rs = length args \<and> (\<forall>i < length args. f (args ! i) = Inr (rs ! i))"
  unfolding starmap_all2 list_all2_conv_all_nth by auto

lemma those_eq_Some: "those xs = Some ys \<longleftrightarrow> xs = map Some ys"
proof (induction xs arbitrary: ys)
  case Nil
  then show ?case by auto
next
  case (Cons x xs)
  then show ?case
    by (cases ys; cases x) (auto split: option.splits)
qed


lemma pool_collect_sound:
  assumes "pool_collect f args cs slots = Inr slots'"
    and "\<forall>i < length slots. \<forall>r. slots ! i = Some r \<longrightarrow> i < length args \<and> f (args ! i) = Inr r"
  shows "length slots' = length slots \<and>
   (\<forall>i < length slots. \<forall>r. slots' ! i = Some r \<longrightarrow> i < length args \<and> f (args ! i) = Inr r)"
  using assms
proof (induction cs arbitrary: slots)
  case Nil
  from Nil(1) have "slots' = slots" by simp
  with Nil(2) show ?case by blast
next
  case (Cons c cs)
  show ?case
  proof (cases "c < length args")
    case False
    with Cons.prems(1) have "pool_collect f args cs slots = Inr slots'" by simp
    from Cons.IH [OF this Cons.prems(2)] show ?thesis .
  next
    case True
    with Cons.prems(1) obtain r where r: "f (args ! c) = Inr r"
      and rest: "pool_collect f args cs (slots[c := Some r]) = Inr slots'"
      by (cases "f (args ! c)") simp_all
    have "\<forall>i<length (slots[c := Some r]). \<forall>r'. slots[c := Some r] ! i = Some r' \<longrightarrow>
            i < length args \<and> f (args ! i) = Inr r'"
    proof (intro allI impI)
      fix i r' assume i: "i < length (slots[c := Some r])" and s: "slots[c := Some r] ! i = Some r'"
      show "i < length args \<and> f (args ! i) = Inr r'"
      proof (cases "i = c")
        case True
        with i s have "r' = r" by simp
        with True r \<open>c < length args\<close> show ?thesis by simp
      next
        case False
        with s have "slots ! i = Some r'" by simp
        with i Cons.prems(2) show ?thesis by simp
      qed
    qed
    from Cons.IH [OF rest this] show ?thesis by simp
  qed
qed

lemma pool_collect_complete:
  "\<forall>i < length args. \<exists>r. f (args ! i) = Inr r \<Longrightarrow> length slots = length args \<Longrightarrow>
   \<exists>slots'. pool_collect f args cs slots = Inr slots' \<and>
     (\<forall>i < length args. (i \<in> set cs \<or> slots ! i \<noteq> None) \<longrightarrow> slots' ! i \<noteq> None)"
proof (induction cs arbitrary: slots)
  case Nil
  then show ?case by simp
next
  case (Cons c cs)
  show ?case
  proof (cases "c < length args")
    case False
    from Cons.IH [OF Cons.prems] obtain slots' where
      s: "pool_collect f args cs slots = Inr slots'"
      and t: "\<forall>i<length args. (i \<in> set cs \<or> slots ! i \<noteq> None) \<longrightarrow> slots' ! i \<noteq> None"
      by blast
    have "slots' ! i \<noteq> None" if i: "i < length args" and h: "i \<in> set (c # cs) \<or> slots ! i \<noteq> None" for i
    proof -
      from i False have "i \<noteq> c" by auto
      with h have "i \<in> set cs \<or> slots ! i \<noteq> None" by auto
      with t i show ?thesis by blast
    qed
    with s False show ?thesis by simp
  next
    case True
    with Cons.prems(1) obtain r where r: "f (args ! c) = Inr r" by blast
    have len: "length (slots[c := Some r]) = length args" using Cons.prems(2) by simp
    from Cons.IH [OF Cons.prems(1) len] obtain slots' where
      s: "pool_collect f args cs (slots[c := Some r]) = Inr slots'"
      and t: "\<forall>i<length args. (i \<in> set cs \<or> slots[c := Some r] ! i \<noteq> None) \<longrightarrow> slots' ! i \<noteq> None"
      by blast
    have "slots' ! i \<noteq> None" if i: "i < length args" and h: "i \<in> set (c # cs) \<or> slots ! i \<noteq> None" for i
    proof (cases "i = c")
      case True
      with i Cons.prems(2) have "slots[c := Some r] ! i \<noteq> None" by simp
      with t i show ?thesis by blast
    next
      case False
      then have "slots[c := Some r] ! i = slots ! i" by simp
      with h False have "i \<in> set cs \<or> slots[c := Some r] ! i \<noteq> None" by auto
      with t i show ?thesis by blast
    qed
    with s r True show ?thesis by simp
  qed
qed


lemma pool_starmap_sound:
  assumes "pool_starmap f args cs = Inr rs"
  shows "starmap f args = Inr rs"
proof -
  from assms obtain slots where c: "pool_collect f args cs (replicate (length args) None) = Inr slots"
    and t: "those slots = Some rs"
    by (auto simp: pool_starmap_def split: sum.splits option.splits)
  from t have slots: "slots = map Some rs" by (simp add: those_eq_Some)
  from pool_collect_sound [OF c]
  have len: "length slots = length args"
    and ok: "\<forall>i < length args. \<forall>r. slots ! i = Some r \<longrightarrow> f (args ! i) = Inr r"
    by simp_all
  from len slots have lrs: "length rs = length args" by simp
  have "f (args ! i) = Inr (rs ! i)" if "i < length args" for i
  proof -
    from that lrs slots have "slots ! i = Some (rs ! i)" by simp
    with ok that show ?thesis by blast
  qed
  with lrs show ?thesis by (simp add: starmap_Inr_iff)
qed

lemma pool_starmap_complete:
  assumes all: "{..<length args} \<subseteq> set cs" and seq: "starmap f args = Inr rs"
  shows "pool_starmap f args cs = Inr rs"
proof -
  from seq have lrs: "length rs = length args"
    and fr: "\<forall>i < length args. f (args ! i) = Inr (rs ! i)"
    by (simp_all add: starmap_Inr_iff)
  from fr have ex: "\<forall>i < length args. \<exists>r. f (args ! i) = Inr r" by blast
  from pool_collect_complete [OF ex, of "replicate (length args) None" cs] obtain slots where
    c: "pool_collect f args cs (replicate (length args) None) = Inr slots"
    and filled: "\<forall>i < length args. i \<in> set cs \<longrightarrow> slots ! i \<noteq> None"
    by auto
  from pool_collect_sound [OF c]
  have len: "length slots = length args"
    and ok: "\<forall>i < length args. \<forall>r. slots ! i = Some r \<longrightarrow> f (args ! i) = Inr r"
    by simp_all
  have "slots ! i = Some (rs ! i)" if i: "i < length args" for i
  proof -
    from i all have "i \<in> set cs" by auto
    with filled i obtain r where r: "slots ! i = Some r" by auto
    with ok i have "f (args ! i) = Inr r" by blast
    with fr i have "r = rs ! i" by simp
    with r show ?thesis by simp
  qed
  with len lrs have "slots = map Some rs"
    by (intro nth_equalityI) simp_all
  then have "those slots = Some rs" by (simp add: those_eq_Some)
  with c show ?thesis by (simp add: pool_starmap_def)
qed

lemma multiprocess_sound:
  "multiprocess f args njobs cs = Inr rs \<Longrightarrow> starmap f args = Inr rs"
  by (auto simp: multiprocess_def pool_starmap_sound split: if_splits)

lemma multiprocess_complete:
  "{..<length args} \<subseteq> set cs \<Longrightarrow> starmap f args = Inr rs \<Longrightarrow>
   multiprocess f args njobs cs = Inr rs"
  by (simp add: multiprocess_def pool_starmap_complete)

subsection \<open>Results of \<open>batch_call\<close>\<close>

lemma batch_call_Inr:
  assumes "batch_call deblend mx b njobs cs = Inr out"
  obtains outs where "length outs = batch_size b"
    and "\<forall>ii < batch_size b. deblend ii b = Inr (outs ! ii)"
    and "reconcile mx b outs = Inr out"
proof -
  from assms obtain outs where
    m: "multiprocess (\<lambda>(ii, b). deblend ii b) (map (\<lambda>ii. (ii, b)) [0..<batch_size b]) njobs cs = Inr outs"
    and r: "reconcile mx b outs = Inr out"
    by (auto simp: batch_call_def split: sum.splits)
  from multiprocess_sound [OF m]
  have "length outs = batch_size b" "\<forall>ii < batch_size b. deblend ii b = Inr (outs ! ii)"
    by (simp_all add: starmap_Inr_iff)
  with r that show thesis by blast
qed

lemma batch_call_njobs:
  assumes "{..<batch_size b} \<subseteq> set cs"
  shows "batch_call deblend mx b njobs cs = Inr out \<longleftrightarrow> batch_call deblend mx b 1 cs' = Inr out"
proof -
  let ?f = "\<lambda>(ii, b). deblend ii b" and ?args = "map (\<lambda>ii. (ii, b)) [0..<batch_size b]"
  from assms have sub: "{..<length ?args} \<subseteq> set cs" by simp
  have eq: "multiprocess ?f ?args njobs cs = Inr outs \<longleftrightarrow> starmap ?f ?args = Inr outs" for outs
    using multiprocess_sound [of ?f ?args njobs cs outs]
      multiprocess_complete [OF sub, of ?f outs njobs] by blast
  have seq: "multiprocess ?f ?args 1 cs' = starmap ?f ?args"
    by (simp add: multiprocess_def)
  show ?thesis
  proof (cases "starmap ?f ?args")
    case (Inl e)
    then have "\<forall>outs. multiprocess ?f ?args njobs cs \<noteq> Inr outs"
      using eq by simp
    then obtain e' where "multiprocess ?f ?args njobs cs = Inl e'"
      by (cases "multiprocess ?f ?args njobs cs") auto
    with Inl seq show ?thesis by (simp add: batch_call_def)
  next
    case (Inr outs)
    with eq have "multiprocess ?f ?args njobs cs = Inr outs" by simp
    with Inr seq show ?thesis by (simp add: batch_call_def)
  qed
qed

lemma reconcile_catalogs:
  "reconcile mx b outs = Inr out \<Longrightarrow> db_catalog_list out = map catalog outs \<and> outs \<noteq> []"
  by (auto simp: reconcile_def getitem_def Let_def split: sum.splits if_splits prod.splits)

lemma np_array_Inr:
  assumes "np_array xs = Inr a" and "xs \<noteq> []"
  shows "dims a = shape (the (xs ! 0)) \<and> entries a = map (\<lambda>x. flatten (the x)) xs \<and>
         (\<forall>x \<in> set xs. x \<noteq> None)"
proof -
  from assms obtain ys where t: "those xs = Some ys"
    by (auto simp: np_array_def split: option.splits)
  then have xs: "xs = map Some ys" by (simp add: those_eq_Some)
  with assms(2) obtain y rest where ys: "ys = y # rest" by (cases ys) auto
  with assms(1) t have "a = \<lparr>dims = shape y, entries = map flatten (y # rest)\<rparr>"
    by (auto simp: np_array_def split: if_splits)
  with xs ys show ?thesis by (auto simp: comp_def)
qed

lemma reconcile_fields:
  assumes "reconcile mx b outs = Inr out"
  shows "outs \<noteq> []"
    and "stack_segmentation (outs ! 0) outs = Inr (db_segmentation out)"
    and "stack_deblended (outs ! 0) outs = Inr (db_deblended out, db_n_bands out)"
    and "db_extra_data out =
           (if extra_data (outs ! 0) \<noteq> None then Some (map extra_data outs) else None)"
  using assms
  by (auto simp: reconcile_def getitem_def Let_def split: sum.splits if_splits prod.splits)

lemma stack_segmentation_Inr:
  assumes "stack_segmentation (outs ! 0) outs = Inr s" and "outs \<noteq> []"
  shows "(s = None \<longleftrightarrow> segmentation (outs ! 0) = None) \<and>
         (\<forall>a. s = Some a \<longrightarrow>
            shape a = length outs # shape (the (segmentation (outs ! 0))) \<and>
            entries a = map (\<lambda>ex. flatten (the (segmentation ex))) outs)"
proof (cases "segmentation (outs ! 0) = None")
  case True
  with assms show ?thesis by (simp add: stack_segmentation_def)
next
  case False
  with assms(1) obtain a where a: "np_array (map segmentation outs) = Inr a" and s: "s = Some a"
    by (auto simp: stack_segmentation_def split: sum.splits)
  from assms(2) have ne: "map segmentation outs \<noteq> []" by simp
  from np_array_Inr [OF a ne] assms(2) s False show ?thesis
    by (simp add: shape_def comp_def)
qed

lemma stack_deblended_Inr:
  assumes "stack_deblended (outs ! 0) outs = Inr (d, nb)" and "outs \<noteq> []"
  shows "(d = None \<longleftrightarrow> deblended_images (outs ! 0) = None) \<and>
         (\<forall>a. d = Some a \<longrightarrow>
            shape a = length outs # shape (the (deblended_images (outs ! 0))) \<and>
            entries a = map (\<lambda>ex. flatten (the (deblended_images ex))) outs)"
proof (cases "deblended_images (outs ! 0) = None")
  case True
  with assms show ?thesis by (simp add: stack_deblended_def)
next
  case False
  with assms(1) obtain a where a: "np_array (map deblended_images outs) = Inr a" and d: "d = Some a"
    by (auto simp: stack_deblended_def split: sum.splits if_splits)
  from assms(2) have ne: "map deblended_images outs \<noteq> []" by simp
  from np_array_Inr [OF a ne] assms(2) d False show ?thesis
    by (simp add: shape_def comp_def)
qed

lemma batch_call_returns:
  assumes pos: "0 < batch_size b"
    and ok: "\<forall>ii < batch_size b. \<exists>ex. deblend ii b = Inr ex \<and> segmentation ex = None \<and>
                deblended_images ex = None"
    and all: "{..<batch_size b} \<subseteq> set completion"
  shows "\<exists>out. batch_call deblend mx b njobs completion = Inr out"
proof -
  let ?f = "\<lambda>(ii, b). deblend ii b" and ?args = "map (\<lambda>ii. (ii, b)) [0..<batch_size b]"
  let ?outs = "map (\<lambda>ii. projr (deblend ii b)) [0..<batch_size b]"
  have each: "deblend ii b = Inr (?outs ! ii)" if "ii < batch_size b" for ii
    using ok that by auto
  then have "starmap ?f ?args = Inr ?outs"
    by (simp add: starmap_Inr_iff)
  moreover from all have "{..<length ?args} \<subseteq> set completion" by simp
  ultimately have m: "multiprocess ?f ?args njobs completion = Inr ?outs"
    by (rule multiprocess_complete [rotated])
  from ok pos each [OF pos] have first: "segmentation (?outs ! 0) = None"
      "deblended_images (?outs ! 0) = None"
    by (metis sum.inject(2))+
  from pos have g: "getitem ?outs 0 = Inr (?outs ! 0)" by (simp add: getitem_def)
  have "\<exists>out. reconcile mx b ?outs = Inr out"
    unfolding reconcile_def Let_def g
    by (simp add: stack_segmentation_def stack_deblended_def first del: upt.simps)
  with m show ?thesis by (simp add: batch_call_def)
qed

subsection \<open>Duplicate suppression in \<open>SepMultiBand\<close>\<close>

lemma nearest_distance_Min:
  "c2 \<noteq> [] \<Longrightarrow> nearest_distance separation c c2 = Min (separation c ` set c2)"
proof -
  assume "c2 \<noteq> []"
  then obtain x xs where c2: "c2 = x # xs" by (cases c2) auto
  have "Min (set (separation c x # map (separation c) xs)) =
          fold min (map (separation c) xs) (separation c x)"
    by (rule Min.set_eq_fold)
  with c2 show ?thesis by (simp add: nearest_distance_def)
qed

lemma mask_select_map: "mask_select (map f ps) (map P ps) = map f (filter P ps)"
  by (induction ps) (auto simp: mask_select_def)

text \<open>
  C2. When the running coordinates and the detections of the new band are both non-empty,
  the merge appends to the running coordinates exactly the detections whose distance to
  the nearest running coordinate (the least separation) is strictly greater than the
  matching threshold, in their order; a detection at exactly the threshold is not
  appended.
\<close>

theorem merge_keeps_strictly_farther:
  assumes "length ra_c = length dec_c" and "length ra_d = length dec_d"
    and "ra_c \<noteq> []" and "ra_d \<noteq> []"
  shows "merge_detections separation thr (ra_c, dec_c) (ra_d, dec_d) =
           Inr (ra_c @ map fst (filter (\<lambda>c. thr < Min (separation c ` set (zip ra_c dec_c)))
                            (zip ra_d dec_d)),
                dec_c @ map snd (filter (\<lambda>c. thr < Min (separation c ` set (zip ra_c dec_c)))
                             (zip ra_d dec_d)))"
proof -
  let ?c1 = "zip ra_d dec_d" and ?c2 = "zip ra_c dec_c"
  let ?keep = "\<lambda>c. thr < Min (separation c ` set ?c2)"
  from assms(1,3) have ne2: "?c2 \<noteq> []"
    by (cases ra_c; cases dec_c) simp_all
  from assms(2,4) have ne1: "?c1 \<noteq> []"
    by (cases ra_d; cases dec_d) simp_all
  note ne = ne2 ne1
  have m: "match_to_catalog_sky separation ?c1 ?c2 =
             Inr (map (\<lambda>c. Min (separation c ` set ?c2)) ?c1)"
    using ne(1) by (simp add: match_to_catalog_sky_def nearest_distance_Min)
  have ra: "ra_d = map fst ?c1" and dec: "dec_d = map snd ?c1"
    using assms(2) by simp_all
  have kra: "mask_select ra_d (map (\<lambda>d. thr < d) (map (\<lambda>c. Min (separation c ` set ?c2)) ?c1))
               = map fst (filter ?keep ?c1)"
    using mask_select_map [of fst ?c1 ?keep] ra by (simp add: comp_def)
  have kdec: "mask_select dec_d (map (\<lambda>d. thr < d) (map (\<lambda>c. Min (separation c ` set ?c2)) ?c1))
               = map snd (filter ?keep ?c1)"
    using mask_select_map [of snd ?c1 ?keep] dec by (simp add: comp_def)
  from ne have pos: "length ?c1 > 0 \<and> length ?c2 > 0" by simp
  show ?thesis
    unfolding merge_detections_def Let_def fst_conv snd_conv m
    by (simp only: pos simp_thms if_True sum.case kra kdec)
qed

text \<open>
  With one running coordinate at 0 and a threshold of 1 arcsecond, of the detections at
  distance 1/2, 1 and 2 only the last is appended.
\<close>

theorem merge_keeps_strictly_farther_witness:
  "merge_detections equator_separation 1 ([0], [0]) ([1 / 2, 1, 2], [0, 0, 0])
     = Inr ([0, 2], [0, 0])"
proof -
  have "length [0::real] = length [0::real]" "length [1 / 2, 1, 2::real] = length [0, 0, 0::real]"
    "[0::real] \<noteq> []" "[1 / 2, 1, 2::real] \<noteq> []" by simp_all
  from merge_keeps_strictly_farther [OF this, of equator_separation 1]
  show ?thesis by (simp add: equator_separation_def)
qed

text \<open>
  C3. If the running coordinates or the detections of the new band are empty, every
  detection of the band is appended to the running coordinates; the result is the same
  for every separation function, none being consulted.
\<close>

theorem merge_appends_all_when_empty:
  assumes "zip ra_c dec_c = [] \<or> zip ra_d dec_d = []"
  shows "merge_detections separation thr (ra_c, dec_c) (ra_d, dec_d) =
           Inr (ra_c @ ra_d, dec_c @ dec_d)"
  using assms by (auto simp: merge_detections_def Let_def)

theorem merge_appends_all_when_empty_witness:
  "merge_detections equator_separation 1 ([], []) ([1 / 2, 2], [0, 0]) = Inr ([1 / 2, 2], [0, 0]) \<and>
   merge_detections equator_separation 1 ([3], [0]) ([], []) = Inr ([3], [0])"
  using merge_appends_all_when_empty [of "[]" "[]" "[1 / 2, 2]" "[0, 0]" equator_separation 1]
    merge_appends_all_when_empty [of "[3]" "[0]" "[]" "[]" equator_separation 1]
  by simp

subsection \<open>Order of the examples in a batch\<close>

text \<open>
  C4. Whenever every unit of work completes, \<open>batch_call\<close> with any number of jobs and
  any completion order returns exactly the \<open>DeblendBatch\<close> that the sequential run
  (\<open>njobs = 1\<close>) returns, and it returns one in the same cases. In the batch it returns,
  \<open>catalog_list\<close> has \<open>batch_size\<close> entries and entry \<open>ii\<close> is the catalog of the example
  that \<open>deblend(ii, batch)\<close> returns. It does return a batch when the batch is not empty
  and every call of \<open>deblend\<close> returns an example (stated for examples without
  segmentation and deblended images, where no stacking of arrays is involved).
\<close>

theorem batch_call_preserves_order:
  assumes "{..<batch_size b} \<subseteq> set completion"
  shows "(batch_call deblend mx b njobs completion = Inr out \<longleftrightarrow>
            batch_call deblend mx b 1 completion' = Inr out) \<and>
         (batch_call deblend mx b njobs completion = Inr out \<longrightarrow>
            length (db_catalog_list out) = batch_size b \<and>
            (\<forall>ii < batch_size b.
               \<exists>ex. deblend ii b = Inr ex \<and> db_catalog_list out ! ii = catalog ex)) \<and>
         (0 < batch_size b \<and>
          (\<forall>ii < batch_size b. \<exists>ex. deblend ii b = Inr ex \<and> segmentation ex = None \<and>
                deblended_images ex = None) \<longrightarrow>
            (\<exists>out'. batch_call deblend mx b njobs completion = Inr out'))"
proof (intro conjI impI)
  show "batch_call deblend mx b njobs completion = Inr out \<longleftrightarrow>
          batch_call deblend mx b 1 completion' = Inr out"
    by (rule batch_call_njobs [OF assms])
next
  assume r: "batch_call deblend mx b njobs completion = Inr out"
  then obtain outs where len: "length outs = batch_size b"
    and each: "\<forall>ii < batch_size b. deblend ii b = Inr (outs ! ii)"
    and rec: "reconcile mx b outs = Inr out"
    by (rule batch_call_Inr)
  from reconcile_catalogs [OF rec] have cats: "db_catalog_list out = map catalog outs" by simp
  with len show "length (db_catalog_list out) = batch_size b" by simp
  show "\<forall>ii < batch_size b. \<exists>ex. deblend ii b = Inr ex \<and> db_catalog_list out ! ii = catalog ex"
    using each cats len by simp
next
  assume "0 < batch_size b \<and>
          (\<forall>ii < batch_size b. \<exists>ex. deblend ii b = Inr ex \<and> segmentation ex = None \<and>
                deblended_images ex = None)"
  then show "\<exists>out'. batch_call deblend mx b njobs completion = Inr out'"
    using assms by (intro batch_call_returns) simp_all
qed

text \<open>
  On the example batch with two jobs, the second example finishing first: the result is
  the one of the sequential run, the catalog of example 0 first.
\<close>

theorem batch_call_preserves_order_witness:
  "{..<batch_size example_batch} \<subseteq> set [1, 0] \<and>
   batch_call (PeakLocalMax_deblend (skimage_peak_local_max example_find_peaks) example_peaks)
       1 example_batch 2 [1, 0]
     = Inr \<lparr>db_batch_size = 2, db_max_n_sources = 1,
            db_catalog_list =
              [[(''ra'', [2]), (''dec'', [0]), (''x_peak'', [2]), (''y_peak'', [0])],
               [(''ra'', []), (''dec'', []), (''x_peak'', []), (''y_peak'', [])]],
            db_n_bands = None, db_image_size = 3, db_segmentation = None,
            db_deblended = None, db_extra_data = None\<rparr> \<and>
   batch_call (PeakLocalMax_deblend (skimage_peak_local_max example_find_peaks) example_peaks)
       1 example_batch 1 []
     = Inr \<lparr>db_batch_size = 2, db_max_n_sources = 1,
            db_catalog_list =
              [[(''ra'', [2]), (''dec'', [0]), (''x_peak'', [2]), (''y_peak'', [0])],
               [(''ra'', []), (''dec'', []), (''x_peak'', []), (''y_peak'', [])]],
            db_n_bands = None, db_image_size = 3, db_segmentation = None,
            db_deblended = None, db_extra_data = None\<rparr>"
proof -
  let ?d = "PeakLocalMax_deblend (skimage_peak_local_max example_find_peaks) example_peaks"
  let ?out = "\<lparr>db_batch_size = 2, db_max_n_sources = 1,
      db_catalog_list = [[(''ra'', [2]), (''dec'', [0]), (''x_peak'', [2]), (''y_peak'', [0])],
                         [(''ra'', []), (''dec'', []), (''x_peak'', []), (''y_peak'', [])]],
      db_n_bands = None, db_image_size = 3, db_segmentation = None, db_deblended = None,
      db_extra_data = None\<rparr>"
  have h: "{..<batch_size example_batch} \<subseteq> set [1, 0]"
    by (auto simp: example_batch_def)
  have r: "batch_call ?d 1 example_batch 2 [1, 0] = Inr ?out"
    by (simp add: batch_call_def multiprocess_def pool_starmap_def upt_rec
        reconcile_def getitem_def stack_segmentation_def stack_deblended_def Let_def
        PeakLocalMax_deblend_def skimage_peak_local_max_def example_find_peaks_def
        example_batch_def reduce_image_def band_image_def bright_columns_def
        pixel_to_arcsec_def example_wcs_def len_table_def example_peaks_def
        new_DeblendExample_def)
  from batch_call_preserves_order [OF h, of ?d 1 2 ?out "[]"] r h
  show ?thesis by simp
qed

subsection \<open>Optional fields of a batch\<close>

lemma np_array_same_shape:
  assumes "xs \<noteq> []" and "\<forall>x \<in> set xs. \<exists>a. x = Some a \<and> shape a = sh"
  shows "np_array xs = Inr \<lparr>dims = sh, entries = map (\<lambda>x. flatten (the x)) xs\<rparr>"
proof -
  from assms(2) have xs: "xs = map Some (map the xs)"
    by (induction xs) auto
  then have t: "those xs = Some (map the xs)" by (simp add: those_eq_Some)
  from assms(1) obtain x rest where c: "xs = x # rest" by (cases xs) auto
  with assms(2) have sh: "shape (the x) = sh" "\<forall>y \<in> set rest. shape (the y) = sh"
    by auto
  show ?thesis
    unfolding np_array_def t
    using sh by (simp add: c comp_def)
qed

lemma reconcile_explicit:
  assumes ne: "outs \<noteq> []"
    and seg: "segmentation (outs ! 0) \<noteq> None \<longrightarrow>
                (\<forall>ex \<in> set outs. \<exists>a. segmentation ex = Some a \<and>
                   shape a = shape (the (segmentation (outs ! 0))))"
    and deb: "deblended_images (outs ! 0) \<noteq> None \<longrightarrow>
                length (shape (the (deblended_images (outs ! 0)))) = 4 \<and>
                (\<forall>ex \<in> set outs. \<exists>a. deblended_images ex = Some a \<and>
                   shape a = shape (the (deblended_images (outs ! 0))))"
  shows "reconcile mx b outs =
           Inr \<lparr>db_batch_size = batch_size b, db_max_n_sources = mx,
                db_catalog_list = map catalog outs,
                db_n_bands = map_option (\<lambda>a. shape a ! 1) (deblended_images (outs ! 0)),
                db_image_size = image_size b,
                db_segmentation =
                  map_option (\<lambda>a. \<lparr>dims = shape a,
                                      entries = map (\<lambda>ex. flatten (the (segmentation ex))) outs\<rparr>)
                    (segmentation (outs ! 0)),
                db_deblended =
                  map_option (\<lambda>a. \<lparr>dims = shape a,
                                      entries = map (\<lambda>ex. flatten (the (deblended_images ex))) outs\<rparr>)
                    (deblended_images (outs ! 0)),
                db_extra_data =
                  map_option (\<lambda>d. map extra_data outs) (extra_data (outs ! 0))\<rparr>"
proof -
  from ne have g: "getitem outs 0 = Inr (outs ! 0)" by (simp add: getitem_def)
  have s: "stack_segmentation (outs ! 0) outs =
             Inr (map_option (\<lambda>a. \<lparr>dims = shape a,
                    entries = map (\<lambda>ex. flatten (the (segmentation ex))) outs\<rparr>)
                    (segmentation (outs ! 0)))"
  proof (cases "segmentation (outs ! 0)")
    case None
    then show ?thesis by (simp add: stack_segmentation_def)
  next
    case (Some a)
    with seg have "\<forall>x \<in> set (map segmentation outs). \<exists>a'. x = Some a' \<and> shape a' = shape a"
      by auto
    from np_array_same_shape [OF _ this] ne Some show ?thesis
      by (simp add: stack_segmentation_def comp_def)
  qed
  have d: "stack_deblended (outs ! 0) outs =
             Inr (map_option (\<lambda>a. \<lparr>dims = shape a,
                    entries = map (\<lambda>ex. flatten (the (deblended_images ex))) outs\<rparr>)
                    (deblended_images (outs ! 0)),
                  map_option (\<lambda>a. shape a ! 1) (deblended_images (outs ! 0)))"
  proof (cases "deblended_images (outs ! 0)")
    case None
    then show ?thesis by (simp add: stack_deblended_def)
  next
    case (Some a)
    with deb have l: "length (shape a) = 4"
      and "\<forall>x \<in> set (map deblended_images outs). \<exists>a'. x = Some a' \<and> shape a' = shape a"
      by auto
    from np_array_same_shape [OF _ this(2)] ne
    have "np_array (map deblended_images outs) =
            Inr \<lparr>dims = shape a, entries = map (\<lambda>ex. flatten (the (deblended_images ex))) outs\<rparr>"
      by (simp add: comp_def)
    with Some l show ?thesis
      by (simp add: stack_deblended_def shape_def)
  qed
  show ?thesis
    by (cases "extra_data (outs ! 0)") (simp_all add: reconcile_def Let_def g s d)
qed

text \<open>
  C5. In the batch that \<open>batch_call\<close> returns, each of \<open>segmentation\<close>, \<open>deblended\<close> and
  \<open>extra_data\<close> is \<open>None\<close> exactly when that field of the first example (index 0) is
  \<open>None\<close>, whatever the other examples hold, and a field that is present is the stack of
  that field of every example, in order, with the batch as leading axis (for
  \<open>extra_data\<close>: the list of the examples' values as they are, \<open>None\<close> included).
  Conversely, when every call of \<open>deblend\<close> returns an example, every unit of work
  completes, and the arrays of a field that the first example has are present with one
  shape in all examples, \<open>batch_call\<close> returns exactly the batch built in this way; of the
  fields that the first example lacks nothing is asked.
\<close>

theorem batch_fields_follow_first_example:
  "(batch_call deblend mx b njobs completion = Inr out \<longrightarrow>
      (\<exists>outs'. length outs' = batch_size b \<and> outs' \<noteq> [] \<and>
         (\<forall>ii < batch_size b. deblend ii b = Inr (outs' ! ii)) \<and>
         (db_segmentation out = None \<longleftrightarrow> segmentation (outs' ! 0) = None) \<and>
         (db_deblended out = None \<longleftrightarrow> deblended_images (outs' ! 0) = None) \<and>
         (db_extra_data out = None \<longleftrightarrow> extra_data (outs' ! 0) = None) \<and>
         (\<forall>a. db_segmentation out = Some a \<longrightarrow>
            shape a = batch_size b # shape (the (segmentation (outs' ! 0))) \<and>
            entries a = map (\<lambda>ex. flatten (the (segmentation ex))) outs') \<and>
         (\<forall>a. db_deblended out = Some a \<longrightarrow>
            shape a = batch_size b # shape (the (deblended_images (outs' ! 0))) \<and>
            entries a = map (\<lambda>ex. flatten (the (deblended_images ex))) outs') \<and>
         (\<forall>l. db_extra_data out = Some l \<longrightarrow> l = map extra_data outs'))) \<and>
   (length outs = batch_size b \<and> outs \<noteq> [] \<and>
    (\<forall>ii < batch_size b. deblend ii b = Inr (outs ! ii)) \<and>
    {..<batch_size b} \<subseteq> set completion \<and>
    (segmentation (outs ! 0) \<noteq> None \<longrightarrow>
       (\<forall>ex \<in> set outs. \<exists>a. segmentation ex = Some a \<and>
          shape a = shape (the (segmentation (outs ! 0))))) \<and>
    (deblended_images (outs ! 0) \<noteq> None \<longrightarrow>
       length (shape (the (deblended_images (outs ! 0)))) = 4 \<and>
       (\<forall>ex \<in> set outs. \<exists>a. deblended_images ex = Some a \<and>
          shape a = shape (the (deblended_images (outs ! 0))))) \<longrightarrow>
    batch_call deblend mx b njobs completion =
      Inr \<lparr>db_batch_size = batch_size b, db_max_n_sources = mx,
           db_catalog_list = map catalog outs,
           db_n_bands = map_option (\<lambda>a. shape a ! 1) (deblended_images (outs ! 0)),
           db_image_size = image_size b,
           db_segmentation =
             map_option (\<lambda>a. \<lparr>dims = shape a,
                                 entries = map (\<lambda>ex. flatten (the (segmentation ex))) outs\<rparr>)
               (segmentation (outs ! 0)),
           db_deblended =
             map_option (\<lambda>a. \<lparr>dims = shape a,
                                 entries = map (\<lambda>ex. flatten (the (deblended_images ex))) outs\<rparr>)
               (deblended_images (outs ! 0)),
           db_extra_data = map_option (\<lambda>d. map extra_data outs) (extra_data (outs ! 0))\<rparr>)"
proof (intro conjI impI)
  assume r: "batch_call deblend mx b njobs completion = Inr out"
  then obtain outs where len: "length outs = batch_size b"
    and each: "\<forall>ii < batch_size b. deblend ii b = Inr (outs ! ii)"
    and rec: "reconcile mx b outs = Inr out"
    by (rule batch_call_Inr)
  note f = reconcile_fields [OF rec]
  from stack_segmentation_Inr [OF f(2) f(1)] len
  have seg: "(db_segmentation out = None \<longleftrightarrow> segmentation (outs ! 0) = None) \<and>
     (\<forall>a. db_segmentation out = Some a \<longrightarrow>
        shape a = batch_size b # shape (the (segmentation (outs ! 0))) \<and>
        entries a = map (\<lambda>ex. flatten (the (segmentation ex))) outs)" by simp
  from stack_deblended_Inr [OF f(3) f(1)] len
  have deb: "(db_deblended out = None \<longleftrightarrow> deblended_images (outs ! 0) = None) \<and>
     (\<forall>a. db_deblended out = Some a \<longrightarrow>
        shape a = batch_size b # shape (the (deblended_images (outs ! 0))) \<and>
        entries a = map (\<lambda>ex. flatten (the (deblended_images ex))) outs)" by simp
  from f(4) have ext: "(db_extra_data out = None \<longleftrightarrow> extra_data (outs ! 0) = None) \<and>
     (\<forall>l. db_extra_data out = Some l \<longrightarrow> l = map extra_data outs)"
    by (simp split: if_splits)
  show "\<exists>outs'. length outs' = batch_size b \<and> outs' \<noteq> [] \<and>
         (\<forall>ii < batch_size b. deblend ii b = Inr (outs' ! ii)) \<and>
         (db_segmentation out = None \<longleftrightarrow> segmentation (outs' ! 0) = None) \<and>
         (db_deblended out = None \<longleftrightarrow> deblended_images (outs' ! 0) = None) \<and>
         (db_extra_data out = None \<longleftrightarrow> extra_data (outs' ! 0) = None) \<and>
         (\<forall>a. db_segmentation out = Some a \<longrightarrow>
            shape a = batch_size b # shape (the (segmentation (outs' ! 0))) \<and>
            entries a = map (\<lambda>ex. flatten (the (segmentation ex))) outs') \<and>
         (\<forall>a. db_deblended out = Some a \<longrightarrow>
            shape a = batch_size b # shape (the (deblended_images (outs' ! 0))) \<and>
            entries a = map (\<lambda>ex. flatten (the (deblended_images ex))) outs') \<and>
         (\<forall>l. db_extra_data out = Some l \<longrightarrow> l = map extra_data outs')"
  proof (intro exI [of _ outs] conjI)
    show "length outs = batch_size b" by (rule len)
    show "outs \<noteq> []" by (rule f(1))
    show "\<forall>ii < batch_size b. deblend ii b = Inr (outs ! ii)" by (rule each)
  qed (use seg deb ext in simp_all)
next
  assume h: "length outs = batch_size b \<and> outs \<noteq> [] \<and>
    (\<forall>ii < batch_size b. deblend ii b = Inr (outs ! ii)) \<and>
    {..<batch_size b} \<subseteq> set completion \<and>
    (segmentation (outs ! 0) \<noteq> None \<longrightarrow>
       (\<forall>ex \<in> set outs. \<exists>a. segmentation ex = Some a \<and>
          shape a = shape (the (segmentation (outs ! 0))))) \<and>
    (deblended_images (outs ! 0) \<noteq> None \<longrightarrow>
       length (shape (the (deblended_images (outs ! 0)))) = 4 \<and>
       (\<forall>ex \<in> set outs. \<exists>a. deblended_images ex = Some a \<and>
          shape a = shape (the (deblended_images (outs ! 0)))))"
  let ?f = "\<lambda>(ii, b). deblend ii b" and ?args = "map (\<lambda>ii. (ii, b)) [0..<batch_size b]"
  from h have "starmap ?f ?args = Inr outs"
    by (simp add: starmap_Inr_iff)
  moreover from h have "{..<length ?args} \<subseteq> set completion" by simp
  ultimately have m: "multiprocess ?f ?args njobs completion = Inr outs"
    by (rule multiprocess_complete [rotated])
  from h have "reconcile mx b outs =
      Inr \<lparr>db_batch_size = batch_size b, db_max_n_sources = mx,
           db_catalog_list = map catalog outs,
           db_n_bands = map_option (\<lambda>a. shape a ! 1) (deblended_images (outs ! 0)),
           db_image_size = image_size b,
           db_segmentation =
             map_option (\<lambda>a. \<lparr>dims = shape a,
                                 entries = map (\<lambda>ex. flatten (the (segmentation ex))) outs\<rparr>)
               (segmentation (outs ! 0)),
           db_deblended =
             map_option (\<lambda>a. \<lparr>dims = shape a,
                                 entries = map (\<lambda>ex. flatten (the (deblended_images ex))) outs\<rparr>)
               (deblended_images (outs ! 0)),
           db_extra_data = map_option (\<lambda>d. map extra_data outs) (extra_data (outs ! 0))\<rparr>"
    by (intro reconcile_explicit) simp_all
  with m show "batch_call deblend mx b njobs completion =
      Inr \<lparr>db_batch_size = batch_size b, db_max_n_sources = mx,
           db_catalog_list = map catalog outs,
           db_n_bands = map_option (\<lambda>a. shape a ! 1) (deblended_images (outs ! 0)),
           db_image_size = image_size b,
           db_segmentation =
             map_option (\<lambda>a. \<lparr>dims = shape a,
                                 entries = map (\<lambda>ex. flatten (the (segmentation ex))) outs\<rparr>)
               (segmentation (outs ! 0)),
           db_deblended =
             map_option (\<lambda>a. \<lparr>dims = shape a,
                                 entries = map (\<lambda>ex. flatten (the (deblended_images ex))) outs\<rparr>)
               (deblended_images (outs ! 0)),
           db_extra_data = map_option (\<lambda>d. map extra_data outs) (extra_data (outs ! 0))\<rparr>"
    by (simp add: batch_call_def)
qed

text \<open>
  On the example batch with \<open>SepSingleBand\<close>, the segmentations \<open>(1, 1, 3)\<close> and the
  deblended images \<open>(1, 1, 1, 3)\<close> of the two examples are stacked into arrays
  \<open>(2, 1, 1, 3)\<close> and \<open>(2, 1, 1, 1, 3)\<close>. With two results of which only the second has a
  segmentation and only the first has extra data, the batch has no segmentation and has the
  list of extra data: the presence is read from the first example alone.
\<close>

theorem batch_fields_follow_first_example_witness:
  "batch_call (SepSingleBand_deblend example_extract
       \<lparr>ssb_max_n_sources = 1, ssb_thresh = 3 / 2, ssb_min_area = 5, ssb_band = UseBand 0\<rparr>)
       1 example_batch 2 [1, 0]
     = Inr \<lparr>db_batch_size = 2, db_max_n_sources = 1,
            db_catalog_list =
              [[(''ra'', [0]), (''dec'', [0]), (''x_peak'', [0]), (''y_peak'', [0])],
               [(''ra'', []), (''dec'', []), (''x_peak'', []), (''y_peak'', [])]],
            db_n_bands = Some 1, db_image_size = 3,
            db_segmentation =
              Some \<lparr>dims = [1, 1, 3], entries = [[True, False, False], [False, False, False]]\<rparr>,
            db_deblended = Some \<lparr>dims = [1, 1, 1, 3], entries = [[9, 0, 0], [0, 0, 0]]\<rparr>,
            db_extra_data = None\<rparr> \<and>
   batch_call (\<lambda>ii b. Inr (if ii = 0 then example_plain\<lparr>extra_data := Some []\<rparr>
                            else example_segmented))
       1 example_batch 1 [0, 1]
     = Inr \<lparr>db_batch_size = 2, db_max_n_sources = 1,
            db_catalog_list = [[(''ra'', [0]), (''dec'', [0])], [(''ra'', [2]), (''dec'', [0])]],
            db_n_bands = None, db_image_size = 3, db_segmentation = None,
            db_deblended = None, db_extra_data = Some [Some [], None]\<rparr> \<and>
   segmentation example_segmented \<noteq> None"
proof -
  let ?ssb = "\<lparr>ssb_max_n_sources = 1, ssb_thresh = 3 / 2, ssb_min_area = 5, ssb_band = UseBand 0\<rparr>"
  let ?d = "SepSingleBand_deblend example_extract ?ssb"
  let ?e0 = "\<lparr>ex_max_n_sources = 1,
      catalog = [(''ra'', [0]), (''dec'', [0]), (''x_peak'', [0]), (''y_peak'', [0])],
      ex_n_bands = Some 1, ex_image_size = Some 3,
      segmentation = Some \<lparr>dims = [1, 3], entries = [[True, False, False]]\<rparr>,
      deblended_images = Some \<lparr>dims = [1, 1, 3], entries = [[9, 0, 0]]\<rparr>,
      extra_data = None\<rparr>"
  let ?e1 = "\<lparr>ex_max_n_sources = 1,
      catalog = [(''ra'', []), (''dec'', []), (''x_peak'', []), (''y_peak'', [])],
      ex_n_bands = Some 1, ex_image_size = Some 3,
      segmentation = Some \<lparr>dims = [1, 3], entries = [[False, False, False]]\<rparr>,
      deblended_images = Some \<lparr>dims = [1, 1, 3], entries = [[0, 0, 0]]\<rparr>,
      extra_data = None\<rparr>"
  note defs = SepSingleBand_deblend_def example_extract_def example_batch_def getitem_def
    reduce_image_def band_image_def bright_columns_def upt_rec pixel_to_arcsec_def
    example_wcs_def len_table_def Let_def new_DeblendExample_def sep_fill_def
    np_zeros_def np_zeros_bool_def np_full_def
  have bs: "batch_size example_batch = 2" by (simp add: example_batch_def)
  have d0: "?d 0 example_batch = Inr ?e0" by (simp add: defs)
  have d1: "?d (Suc 0) example_batch = Inr ?e1" by (simp add: defs numeral_3_eq_3)
  have each: "\<forall>ii < batch_size example_batch. ?d ii example_batch = Inr ([?e0, ?e1] ! ii)"
    unfolding bs using d0 d1 by (auto simp: less_Suc_eq numeral_2_eq_2)
  have h1: "length [?e0, ?e1] = batch_size example_batch \<and> [?e0, ?e1] \<noteq> [] \<and>
    (\<forall>ii < batch_size example_batch. ?d ii example_batch = Inr ([?e0, ?e1] ! ii)) \<and>
    {..<batch_size example_batch} \<subseteq> set [1, 0] \<and>
    (segmentation ([?e0, ?e1] ! 0) \<noteq> None \<longrightarrow>
       (\<forall>ex \<in> set [?e0, ?e1]. \<exists>a. segmentation ex = Some a \<and>
          shape a = shape (the (segmentation ([?e0, ?e1] ! 0))))) \<and>
    (deblended_images ([?e0, ?e1] ! 0) \<noteq> None \<longrightarrow>
       length (shape (the (deblended_images ([?e0, ?e1] ! 0)))) = 4 \<and>
       (\<forall>ex \<in> set [?e0, ?e1]. \<exists>a. deblended_images ex = Some a \<and>
          shape a = shape (the (deblended_images ([?e0, ?e1] ! 0)))))"
    using each by (auto simp: bs shape_def)
  note r1 = batch_fields_follow_first_example [where deblend = ?d and b = example_batch
      and outs = "[?e0, ?e1]" and completion = "[1, 0]" and mx = 1 and njobs = 2,
      THEN conjunct2, rule_format, OF h1]
  let ?t = "\<lambda>ii (b :: BlendBatch). Inr (if ii = 0 then example_plain\<lparr>extra_data := Some []\<rparr>
                            else example_segmented) :: error + DeblendExample"
  let ?touts = "[example_plain\<lparr>extra_data := Some []\<rparr>, example_segmented]"
  have h2: "length ?touts = batch_size example_batch \<and> ?touts \<noteq> [] \<and>
    (\<forall>ii < batch_size example_batch. ?t ii example_batch = Inr (?touts ! ii)) \<and>
    {..<batch_size example_batch} \<subseteq> set [0, 1] \<and>
    (segmentation (?touts ! 0) \<noteq> None \<longrightarrow>
       (\<forall>ex \<in> set ?touts. \<exists>a. segmentation ex = Some a \<and>
          shape a = shape (the (segmentation (?touts ! 0))))) \<and>
    (deblended_images (?touts ! 0) \<noteq> None \<longrightarrow>
       length (shape (the (deblended_images (?touts ! 0)))) = 4 \<and>
       (\<forall>ex \<in> set ?touts. \<exists>a. deblended_images ex = Some a \<and>
          shape a = shape (the (deblended_images (?touts ! 0)))))"
    by (auto simp: bs less_Suc_eq numeral_2_eq_2 example_plain_def example_segmented_def)
  note r2 = batch_fields_follow_first_example [where deblend = ?t and b = example_batch
      and outs = ?touts and completion = "[0, 1]" and mx = 1 and njobs = 1,
      THEN conjunct2, rule_format, OF h2]
  have s: "segmentation example_segmented \<noteq> None"
    by (simp add: example_segmented_def)
  from r1 r2 s show ?thesis
    by (simp add: bs shape_def flatten_def example_batch_def example_plain_def
        example_segmented_def)
qed

subsection \<open>Number of rows of the returned catalog\<close>

lemma new_DeblendExample_Inr:
  "new_DeblendExample m cat nb sz seg deb ext = Inr e \<Longrightarrow>
   catalog e = cat \<and> ex_max_n_sources e = m \<and> len_table (catalog e) \<le> m"
  by (auto simp: new_DeblendExample_def split: if_splits)

lemma PeakLocalMax_catalog_bound:
  "PeakLocalMax_deblend peak_local_max self ii b = Inr ex \<Longrightarrow>
   len_table (catalog ex) \<le> plm_max_n_sources self"
  by (auto simp: PeakLocalMax_deblend_def Let_def split: sum.splits if_splits
      dest: new_DeblendExample_Inr)

lemma SepSingleBand_catalog_bound:
  "SepSingleBand_deblend extract self ii b = Inr ex \<Longrightarrow>
   len_table (catalog ex) \<le> ssb_max_n_sources self"
  by (auto simp: SepSingleBand_deblend_def Let_def split: sum.splits if_splits prod.splits
      dest: new_DeblendExample_Inr)

lemma SepMultiBand_catalog_bound:
  "SepMultiBand_deblend extract separation self ii b = Inr ex \<Longrightarrow>
   len_table (catalog ex) \<le> smb_max_n_sources self"
  by (auto simp: SepMultiBand_deblend_def Let_def split: sum.splits if_splits prod.splits
      dest: new_DeblendExample_Inr)

lemma Scarlet_catalog_bound:
  "Scarlet_deblend read_batch observe fit self refs ii b = Inr ex \<Longrightarrow>
   len_table (catalog ex) \<le> sc_max_n_sources self"
  by (auto simp: Scarlet_deblend_def Let_def scarlet_empty_example_def
      split: sum.splits if_splits dest: new_DeblendExample_Inr)

text \<open>
  C1. Whenever \<open>deblend\<close> of \<open>PeakLocalMax\<close>, \<open>SepSingleBand\<close>, \<open>SepMultiBand\<close> or
  \<open>Scarlet\<close> returns an example, the catalog of the example has at most \<open>max_n_sources\<close>
  rows. For \<open>SepMultiBand\<close> this is the catalog merged over the bands: the method itself
  tests only the catalog of each band, and the merged one is tested when the example is
  constructed.
\<close>

theorem returned_catalog_within_max_n_sources:
  "(PeakLocalMax_deblend peak_local_max plm ii b = Inr ex \<longrightarrow>
      len_table (catalog ex) \<le> plm_max_n_sources plm) \<and>
   (SepSingleBand_deblend extr ssb ii b = Inr ex \<longrightarrow>
      len_table (catalog ex) \<le> ssb_max_n_sources ssb) \<and>
   (SepMultiBand_deblend extr separation smb ii b = Inr ex \<longrightarrow>
      len_table (catalog ex) \<le> smb_max_n_sources smb) \<and>
   (Scarlet_deblend read_batch observe fit sc refs ii b = Inr ex \<longrightarrow>
      len_table (catalog ex) \<le> sc_max_n_sources sc)"
proof (intro conjI impI)
  assume "PeakLocalMax_deblend peak_local_max plm ii b = Inr ex"
  then show "len_table (catalog ex) \<le> plm_max_n_sources plm"
    by (rule PeakLocalMax_catalog_bound)
next
  assume "SepSingleBand_deblend extr ssb ii b = Inr ex"
  then show "len_table (catalog ex) \<le> ssb_max_n_sources ssb"
    by (rule SepSingleBand_catalog_bound)
next
  assume "SepMultiBand_deblend extr separation smb ii b = Inr ex"
  then show "len_table (catalog ex) \<le> smb_max_n_sources smb"
    by (rule SepMultiBand_catalog_bound)
next
  assume "Scarlet_deblend read_batch observe fit sc refs ii b = Inr ex"
  then show "len_table (catalog ex) \<le> sc_max_n_sources sc"
    by (rule Scarlet_catalog_bound)
qed

text \<open>
  On the first example, where band 0 has one object and band 1 another one two arcseconds
  away: with \<open>max_n_sources = 2\<close> \<open>SepMultiBand\<close> returns the merged catalog of two rows,
  with \<open>max_n_sources = 1\<close> the call raises and returns no example. The other three
  deblenders return examples within their bounds.
\<close>

theorem returned_catalog_within_max_n_sources_witness:
  "SepMultiBand_deblend example_extract equator_separation
      \<lparr>smb_max_n_sources = 2, matching_threshold = 1, smb_thresh = 3 / 2\<rparr> 0 example_batch
     = Inr \<lparr>ex_max_n_sources = 2, catalog = [(''ra'', [0, 2]), (''dec'', [0, 0])],
            ex_n_bands = None, ex_image_size = None, segmentation = None,
            deblended_images = None, extra_data = None\<rparr> \<and>
   len_table [(''ra'', [0, 2 :: real]), (''dec'', [0, 0])] \<le> 2 \<and>
   SepMultiBand_deblend example_extract equator_separation
      \<lparr>smb_max_n_sources = 1, matching_threshold = 1, smb_thresh = 3 / 2\<rparr> 0 example_batch
     = Inl ValueError_Catalog \<and>
   (\<exists>ex. PeakLocalMax_deblend (skimage_peak_local_max example_find_peaks) example_peaks 0
           example_batch = Inr ex \<and> len_table (catalog ex) \<le> 1) \<and>
   (\<exists>ex. SepSingleBand_deblend example_extract
           \<lparr>ssb_max_n_sources = 1, ssb_thresh = 3 / 2, ssb_min_area = 5, ssb_band = UseBand 0\<rparr>
           0 example_batch = Inr ex \<and> len_table (catalog ex) \<le> 1) \<and>
   (\<exists>ex. Scarlet_deblend (\<lambda>b. Inr ()) (\<lambda>info img. Inr ())
           (\<lambda>obs ra_dec. Inr [\<lparr>center = (0, 0), rendered = replicate 18 1\<rparr>,
                               \<lparr>center = (0, 0), rendered = replicate 18 2\<rparr>])
           \<lparr>sc_max_n_sources = 2\<rparr> None 0 example_batch = Inr ex \<and>
         len_table (catalog ex) \<le> 2)"
proof -
  let ?smb = "\<lparr>smb_max_n_sources = 2, matching_threshold = 1, smb_thresh = 3 / 2\<rparr>"
  let ?ex = "\<lparr>ex_max_n_sources = 2, catalog = [(''ra'', [0, 2]), (''dec'', [0, 0])],
            ex_n_bands = None, ex_image_size = None, segmentation = None,
            deblended_images = None, extra_data = None\<rparr>"
  let ?ssb = "\<lparr>ssb_max_n_sources = 1, ssb_thresh = 3 / 2, ssb_min_area = 5, ssb_band = UseBand 0\<rparr>"
  let ?fit = "\<lambda>(obs :: unit) (ra_dec :: (real \<times> real) list).
                Inr [\<lparr>center = (0, 0), rendered = replicate 18 1\<rparr>,
                     \<lparr>center = (0, 0), rendered = replicate 18 2\<rparr>] :: error + scarlet_source list"
  note t = returned_catalog_within_max_n_sources [where peak_local_max = "skimage_peak_local_max example_find_peaks" and plm = example_peaks
       and extr = example_extract and ssb = ?ssb and separation = equator_separation
       and ii = 0 and b = example_batch and read_batch = "\<lambda>b. Inr ()"
       and observe = "\<lambda>info img. Inr ()" and fit = ?fit and sc = "\<lparr>sc_max_n_sources = 2\<rparr>"
       and refs = None]
  have m2: "SepMultiBand_deblend example_extract equator_separation ?smb 0 example_batch = Inr ?ex"
    by (simp add: SepMultiBand_deblend_def example_sep_defs)
  from t [where smb = ?smb and ex = ?ex, THEN conjunct2, THEN conjunct2, THEN conjunct1,
      rule_format, OF m2]
  have b2: "len_table [(''ra'', [0, 2 :: real]), (''dec'', [0, 0])] \<le> 2" by simp
  have m1: "SepMultiBand_deblend example_extract equator_separation
      \<lparr>smb_max_n_sources = 1, matching_threshold = 1, smb_thresh = 3 / 2\<rparr> 0 example_batch
     = Inl ValueError_Catalog"
    by (simp add: SepMultiBand_deblend_def example_sep_defs)
  have "\<exists>ex. PeakLocalMax_deblend (skimage_peak_local_max example_find_peaks) example_peaks 0
           example_batch = Inr ex"
    by (simp add: PeakLocalMax_deblend_def skimage_peak_local_max_def example_find_peaks_def
        reduce_image_def example_peaks_def example_sep_defs)
  then obtain e1 where e1: "PeakLocalMax_deblend (skimage_peak_local_max example_find_peaks)
      example_peaks 0 example_batch = Inr e1" ..
  from t [where ex = e1, THEN conjunct1, rule_format, OF e1]
  have p: "len_table (catalog e1) \<le> 1" by (simp add: example_peaks_def)
  have "\<exists>ex. SepSingleBand_deblend example_extract ?ssb 0 example_batch = Inr ex"
    by (simp add: SepSingleBand_deblend_def reduce_image_def example_sep_defs)
  then obtain e2 where e2: "SepSingleBand_deblend example_extract ?ssb 0 example_batch = Inr e2" ..
  from t [where ex = e2, THEN conjunct2, THEN conjunct1, rule_format, OF e2]
  have q: "len_table (catalog e2) \<le> 1" by simp
  have "\<exists>ex. Scarlet_deblend (\<lambda>b. Inr ()) (\<lambda>info img. Inr ()) ?fit
           \<lparr>sc_max_n_sources = 2\<rparr> None 0 example_batch = Inr ex"
    by (simp add: Scarlet_deblend_def colnames_def assign_to_def np_zeros_def np_full_def
        example_sep_defs)
  then obtain e3 where e3: "Scarlet_deblend (\<lambda>b. Inr ()) (\<lambda>info img. Inr ()) ?fit
           \<lparr>sc_max_n_sources = 2\<rparr> None 0 example_batch = Inr e3" ..
  from t [where ex = e3, THEN conjunct2, THEN conjunct2, THEN conjunct2, rule_format, OF e3]
  have r: "len_table (catalog e3) \<le> 2" by simp
  from m2 b2 m1 e1 p e2 q e3 r show ?thesis by (intro conjI exI [of _ e1] exI [of _ e2] exI [of _ e3])
qed

subsection \<open>The overflow guard of \<open>PeakLocalMax\<close>\<close>

text \<open>
  C9. With \<open>peak_local_max\<close> capped by \<open>num_peaks = max_n_sources\<close>, \<open>PeakLocalMax.deblend\<close>
  never raises its "more sources than \<open>max_n_sources\<close>" error; when the image can be
  read, it returns a catalog of \<open>min max_n_sources n\<close> rows, where \<open>n\<close> is the number of
  peaks the search finds: the peaks beyond \<open>max_n_sources\<close> are dropped without an error.
\<close>

theorem peak_overflow_guard_unreachable:
  "PeakLocalMax_deblend (skimage_peak_local_max find_peaks) self ii b
     \<noteq> Inl ValueError_TooManySources \<and>
   (\<forall>blend_image img.
      getitem (blend_images b) ii = Inr blend_image \<longrightarrow>
      reduce_image (plm_band self) blend_image = Inr img \<longrightarrow>
      (\<exists>ex. PeakLocalMax_deblend (skimage_peak_local_max find_peaks) self ii b = Inr ex \<and>
            len_table (catalog ex) =
              min (plm_max_n_sources self)
                  (length (find_peaks img (plm_min_distance self)
                             (plm_threshold_scale self * sqrt (plm_sky_level self))))))"
  by (auto simp: PeakLocalMax_deblend_def skimage_peak_local_max_def Let_def len_table_def
      pixel_to_arcsec_def getitem_def reduce_image_def band_image_def new_DeblendExample_def
      split: sum.splits band_choice.splits if_splits)

text \<open>
  On the band mean of the first example the search finds two peaks; with
  \<open>max_n_sources = 1\<close> the call returns a catalog of one row.
\<close>

theorem peak_overflow_guard_unreachable_witness:
  "length (example_find_peaks \<lparr>height = 1, width = 3, pixels = [9 / 2, 0, 7 / 2]\<rparr> 2 (5 * sqrt 1)) = 2 \<and>
   (\<exists>ex. PeakLocalMax_deblend (skimage_peak_local_max example_find_peaks)
            (example_peaks\<lparr>plm_band := UseMean\<rparr>) 0 example_batch = Inr ex \<and>
         len_table (catalog ex) = 1)"
proof -
  let ?self = "example_peaks\<lparr>plm_band := UseMean\<rparr>"
  let ?cube = "\<lparr>cube_height = 1, cube_width = 3, bands = [[9, 0, 0], [0, 0, 7]]\<rparr>"
  let ?img = "\<lparr>height = 1, width = 3, pixels = [9 / 2, 0, 7 / 2]\<rparr> :: real image2d"
  have g: "getitem (blend_images example_batch) 0 = Inr ?cube"
    by (simp add: example_batch_def getitem_def)
  have m: "reduce_image (plm_band ?self) ?cube = Inr ?img"
    by (simp add: reduce_image_def np_mean_axis0_def upt_rec)
  have n: "length (example_find_peaks ?img (plm_min_distance ?self)
             (plm_threshold_scale ?self * sqrt (plm_sky_level ?self))) = 2"
    by (simp add: example_find_peaks_def bright_columns_def upt_rec)
  have n': "length (example_find_peaks ?img 2 (5 * sqrt 1)) = 2"
    by (simp add: example_find_peaks_def bright_columns_def upt_rec)
  have mx: "plm_max_n_sources ?self = 1" by (simp add: example_peaks_def)
  from peak_overflow_guard_unreachable [of example_find_peaks ?self 0 example_batch,
      THEN conjunct2, rule_format, OF g m]
  obtain ex where "PeakLocalMax_deblend (skimage_peak_local_max example_find_peaks) ?self 0
      example_batch = Inr ex"
    and "len_table (catalog ex) = 1"
    unfolding n mx by auto
  with n' show ?thesis by auto
qed

subsection \<open>\<open>Scarlet\<close> and singular systems\<close>

lemma scarlet_empty_example_eq:
  "scarlet_empty_example max_n n_bands img_size =
     Inr \<lparr>ex_max_n_sources = max_n, catalog = [(''ra'', []), (''dec'', [])],
          ex_n_bands = Some n_bands, ex_image_size = Some img_size, segmentation = None,
          deblended_images =
            Some \<lparr>dims = [n_bands, img_size, img_size],
                  entries = replicate max_n (replicate (n_bands * img_size * img_size) 0)\<rparr>,
          extra_data = None\<rparr>"
  by (simp add: scarlet_empty_example_def new_DeblendExample_def len_table_def np_zeros_def
      np_full_def mult.assoc)

text \<open>
  C6. When the scarlet calls inside the \<open>try\<close> raise \<open>LinAlgError\<close> for an example,
  \<open>Scarlet.deblend\<close> does not raise: it returns the \<open>DeblendExample\<close> whose catalog has
  the columns \<open>ra\<close> and \<open>dec\<close> and no row, without segmentation and extra data, and whose
  deblended images are the array of shape
  \<open>(max_n_sources, n_bands, image_size, image_size)\<close> in which every pixel is 0:
  \<open>max_n_sources\<close> entries of \<open>n_bands * image_size * image_size\<close> zeros each.
\<close>

theorem scarlet_recovers_from_LinAlgError:
  assumes "getitem (case refs of None \<Rightarrow> catalog_list b | Some r \<Rightarrow> r) ii = Inr cat"
    and "''ra'' \<in> set (colnames cat)" and "''dec'' \<in> set (colnames cat)"
    and "getitem (blend_images b) ii = Inr img"
    and "read_batch b = Inr info" and "observe info img = Inr obs"
    and "fit obs (zip (map (\<lambda>r. r / 3600) (column cat ''ra''))
                      (map (\<lambda>d. d / 3600) (column cat ''dec''))) = Inl LinAlgError"
  shows "Scarlet_deblend read_batch observe fit self refs ii b =
           Inr \<lparr>ex_max_n_sources = sc_max_n_sources self,
                catalog = [(''ra'', []), (''dec'', [])],
                ex_n_bands = Some (length (bands img)),
                ex_image_size = Some (image_size b),
                segmentation = None,
                deblended_images =
                  Some \<lparr>dims = [length (bands img), image_size b, image_size b],
                        entries = replicate (sc_max_n_sources self)
                                    (replicate (length (bands img) * image_size b * image_size b)
                                       0)\<rparr>,
                extra_data = None\<rparr>"
  using assms by (simp add: Scarlet_deblend_def Let_def scarlet_empty_example_eq)

text \<open>
  On the first example, whose catalog has two sources at the same position, with a fit
  that raises \<open>LinAlgError\<close>: two entries of 18 zeros.
\<close>

theorem scarlet_recovers_from_LinAlgError_witness:
  "len_table (catalog_list example_batch ! 0) = 2 \<and>
   Scarlet_deblend (\<lambda>b. Inr ()) (\<lambda>info img. Inr ()) (\<lambda>obs ra_dec. Inl LinAlgError)
       \<lparr>sc_max_n_sources = 2\<rparr> None 0 example_batch
     = Inr \<lparr>ex_max_n_sources = 2, catalog = [(''ra'', []), (''dec'', [])],
            ex_n_bands = Some 2, ex_image_size = Some 3, segmentation = None,
            deblended_images =
              Some \<lparr>dims = [2, 3, 3],
                    entries = [[0, 0, 0, 0, 0, 0, 0, 0, 0, 0, 0, 0, 0, 0, 0, 0, 0, 0],
                               [0, 0, 0, 0, 0, 0, 0, 0, 0, 0, 0, 0, 0, 0, 0, 0, 0, 0]]\<rparr>,
            extra_data = None\<rparr>"
proof -
  let ?cat = "[(''ra'', [0, 0]), (''dec'', [0, 0])] :: table"
  let ?img = "\<lparr>cube_height = 1, cube_width = 3, bands = [[9, 0, 0], [0, 0, 7]]\<rparr>"
  let ?fit = "\<lambda>(obs :: unit) (ra_dec :: (real \<times> real) list). Inl LinAlgError :: error + scarlet_source list"
  have 1: "getitem (case None of None \<Rightarrow> catalog_list example_batch | Some r \<Rightarrow> r) 0 = Inr ?cat"
    by (simp add: example_batch_def getitem_def)
  have 2: "''ra'' \<in> set (colnames ?cat)" "''dec'' \<in> set (colnames ?cat)"
    by (simp_all add: colnames_def)
  have 3: "getitem (blend_images example_batch) 0 = Inr ?img"
    by (simp add: example_batch_def getitem_def)
  have 4: "image_size example_batch = 3" "length (bands ?img) = 2"
    "len_table (catalog_list example_batch ! 0) = 2"
    by (simp_all add: example_batch_def len_table_def)
  note t = scarlet_recovers_from_LinAlgError [where refs = None and b = example_batch
      and ii = 0 and cat = ?cat and img = ?img and read_batch = "\<lambda>b. Inr ()" and info = "()"
      and observe = "\<lambda>info img. Inr ()" and obs = "()" and fit = ?fit
      and self = "\<lparr>sc_max_n_sources = 2\<rparr>"]
  from t [OF 1 2 3] 4 show ?thesis by (simp add: eval_nat_numeral)
qed

subsection \<open>\<open>DeepDisc\<close>: detections beyond \<open>max_n_sources\<close>\<close>

lemma new_DeblendExample_Inl:
  "max_n < len_table cat \<Longrightarrow> new_DeblendExample max_n cat nb sz seg deb ext = Inl ValueError_Catalog"
  by (simp add: new_DeblendExample_def)

lemma DeepDisc_overflow_never_returns:
  assumes "getitem (blend_images b) ii = Inr cube" and "reader cube = Inr img"
    and "predictor img = Inr out"
    and "dd_max_n_sources self < length (entries (pred_masks out))"
    and "length (pred_centers out) = length (entries (pred_masks out))"
  shows "\<exists>e. DeepDisc_deblend reader predictor self ii b = Inl e"
proof -
  let ?cat = "[(''ra'', fst (pixel_to_arcsec (wcs b) (map fst (pred_centers out))
                             (map snd (pred_centers out)))),
               (''dec'', snd (pixel_to_arcsec (wcs b) (map fst (pred_centers out))
                              (map snd (pred_centers out)))),
               (''x_peak'', map fst (pred_centers out)),
               (''y_peak'', map snd (pred_centers out))]"
  have "len_table ?cat = length (pred_centers out)"
    by (simp add: len_table_def pixel_to_arcsec_def)
  with assms(4,5) have "dd_max_n_sources self < len_table ?cat" by simp
  then have c: "new_DeblendExample (dd_max_n_sources self) ?cat nb sz seg deb ext
                  = Inl ValueError_Catalog" for nb sz seg deb ext
    by (rule new_DeblendExample_Inl)
  show ?thesis
    using assms(1-4)
    by (auto simp: DeepDisc_deblend_def Let_def c split: sum.splits)
qed

text \<open>
  C7. With \<open>allow_over_n_sources\<close> set and more than \<open>max_n_sources\<close> predicted
  detections, \<open>DeepDisc.deblend\<close> fills the fixed arrays with the first \<open>max_n_sources\<close>
  detections and the extra data with the others, but it passes the catalog with all
  \<open>n\<close> rows to the constructor of \<open>DeblendExample\<close>, which refuses it: the call raises
  and no example is returned. On the first example the predictor finds two instances;
  with \<open>max_n_sources = 1\<close> and \<open>allow_over_n_sources\<close> the call ends in the constructor's
  \<open>ValueError\<close>.
\<close>

theorem deepdisc_overflow_raises_in_constructor:
  "example_predictor
       \<lparr>img_height = 1, img_width = 3, img_channels = 2, img_data = [9, 0, 0, 0, 0, 7]\<rparr>
     = Inr \<lparr>pred_centers = [(0, 0), (2, 0)],
            pred_masks = \<lparr>dims = [1, 3],
                          entries = [[True, False, False], [False, False, True]]\<rparr>\<rparr> \<and>
   DeepDisc_deblend example_reader example_predictor
       \<lparr>dd_max_n_sources = 1, allow_over_n_sources = True\<rparr> 0 example_batch
     = Inl ValueError_Catalog"
  by (simp add: example_deepdisc_defs)

subsection \<open>\<open>DeepDisc\<close>: the extra data are never \<open>None\<close>\<close>

lemma DeepDisc_extra_data:
  assumes "DeepDisc_deblend reader predictor self ii b = Inr ex"
  shows "extra_data ex \<noteq> None"
  using assms
  by (auto simp: DeepDisc_deblend_def Let_def new_DeblendExample_def
      split: sum.splits if_splits)

lemma DeepDisc_no_overflow:
  assumes "DeepDisc_deblend reader predictor self ii b = Inr ex"
    and "getitem (blend_images b) ii = Inr cube" and "reader cube = Inr img"
    and "predictor img = Inr out"
    and "length (entries (pred_masks out)) \<le> dd_max_n_sources self"
  shows "extra_data ex = Some []"
  using assms
  by (auto simp: DeepDisc_deblend_def Let_def new_DeblendExample_def
      split: sum.splits if_splits)

text \<open>
  C10. Every example that \<open>DeepDisc.deblend\<close> returns has an \<open>extra_data\<close> that is not
  \<open>None\<close>; when the number of predicted masks does not exceed \<open>max_n_sources\<close> it is the
  empty dictionary. Hence every batch that \<open>batch_call\<close> returns for a \<open>DeepDisc\<close>
  deblender has the list of extra data, one entry per example.
\<close>

theorem deepdisc_extra_data_never_None:
  "(DeepDisc_deblend reader predictor self ii b = Inr ex \<longrightarrow>
      extra_data ex \<noteq> None \<and>
      (\<forall>cube img out.
         getitem (blend_images b) ii = Inr cube \<longrightarrow> reader cube = Inr img \<longrightarrow>
         predictor img = Inr out \<longrightarrow>
         length (entries (pred_masks out)) \<le> dd_max_n_sources self \<longrightarrow>
         extra_data ex = Some [])) \<and>
   (batch_call (DeepDisc_deblend reader predictor self) (dd_max_n_sources self) b njobs completion
      = Inr dbatch \<longrightarrow>
      (\<exists>l. db_extra_data dbatch = Some l \<and> length l = batch_size b))"
proof (intro conjI impI allI)
  assume r: "DeepDisc_deblend reader predictor self ii b = Inr ex"
  then show "extra_data ex \<noteq> None" by (rule DeepDisc_extra_data)
  fix cube img out
  assume "getitem (blend_images b) ii = Inr cube" "reader cube = Inr img"
    "predictor img = Inr out" "length (entries (pred_masks out)) \<le> dd_max_n_sources self"
  with r show "extra_data ex = Some []" by (rule DeepDisc_no_overflow)
next
  assume "batch_call (DeepDisc_deblend reader predictor self) (dd_max_n_sources self) b njobs
            completion = Inr dbatch"
  then obtain outs where len: "length outs = batch_size b"
    and each: "\<forall>ii < batch_size b. DeepDisc_deblend reader predictor self ii b = Inr (outs ! ii)"
    and rec: "reconcile (dd_max_n_sources self) b outs = Inr dbatch"
    by (rule batch_call_Inr)
  note f = reconcile_fields [OF rec]
  from f(1) len have "0 < batch_size b" by (cases outs) auto
  from each [rule_format, OF this] have "extra_data (outs ! 0) \<noteq> None"
    by (rule DeepDisc_extra_data)
  with f(4) have "db_extra_data dbatch = Some (map extra_data outs)" by simp
  with len show "\<exists>l. db_extra_data dbatch = Some l \<and> length l = batch_size b" by simp
qed

text \<open>
  On the example batch with \<open>max_n_sources = 2\<close>: no example overflows, every example has
  the empty dictionary, and the batch has the list of them.
\<close>

theorem deepdisc_extra_data_never_None_witness:
  "(\<exists>ex. DeepDisc_deblend example_reader example_predictor
            \<lparr>dd_max_n_sources = 2, allow_over_n_sources = False\<rparr> 0 example_batch = Inr ex \<and>
         extra_data ex = Some []) \<and>
   (\<exists>dbatch. batch_call (DeepDisc_deblend example_reader example_predictor
                          \<lparr>dd_max_n_sources = 2, allow_over_n_sources = False\<rparr>)
                2 example_batch 1 [] = Inr dbatch \<and>
             db_extra_data dbatch = Some [Some [], Some []])"
proof -
  let ?self = "\<lparr>dd_max_n_sources = 2, allow_over_n_sources = False\<rparr>"
  let ?d = "DeepDisc_deblend example_reader example_predictor ?self"
  have d0: "\<exists>ex. ?d 0 example_batch = Inr ex"
    by (simp add: example_deepdisc_defs)
  have bc: "\<exists>dbatch. batch_call ?d 2 example_batch 1 [] = Inr dbatch \<and>
              db_extra_data dbatch = Some [Some [], Some []]"
    by (simp add: batch_call_def multiprocess_def reconcile_def stack_segmentation_def
        stack_deblended_def np_array_def shape_def flatten_def example_deepdisc_defs)
  from d0 obtain ex where ex: "?d 0 example_batch = Inr ex" by blast
  have 1: "getitem (blend_images example_batch) 0
             = Inr \<lparr>cube_height = 1, cube_width = 3, bands = [[9, 0, 0], [0, 0, 7]]\<rparr>"
    by (simp add: example_batch_def getitem_def)
  have 2: "example_reader \<lparr>cube_height = 1, cube_width = 3, bands = [[9, 0, 0], [0, 0, 7]]\<rparr>
             = Inr \<lparr>img_height = 1, img_width = 3, img_channels = 2,
                    img_data = [9, 0, 0, 0, 0, 7]\<rparr>"
    by (simp add: example_reader_def upt_rec)
  have 3: "example_predictor \<lparr>img_height = 1, img_width = 3, img_channels = 2,
                               img_data = [9, 0, 0, 0, 0, 7]\<rparr>
             = Inr \<lparr>pred_centers = [(0, 0), (2, 0)],
                    pred_masks = \<lparr>dims = [1, 3],
                       entries = [[True, False, False], [False, False, True]]\<rparr>\<rparr>"
    by (simp add: example_predictor_def bright_pixels_def upt_rec)
  from deepdisc_extra_data_never_None
    [where reader = example_reader and predictor = example_predictor and self = ?self
       and ii = 0 and b = example_batch and ex = ex, THEN conjunct1, rule_format, OF ex]
  have "\<forall>cube img out.
         getitem (blend_images example_batch) 0 = Inr cube \<longrightarrow> example_reader cube = Inr img \<longrightarrow>
         example_predictor img = Inr out \<longrightarrow>
         length (entries (pred_masks out)) \<le> dd_max_n_sources ?self \<longrightarrow>
         extra_data ex = Some []" by simp
  from this [rule_format, OF 1 2 3] have "extra_data ex = Some []" by simp
  with ex bc show ?thesis by simp
qed

end
